theory Spec2Isabelle
  imports Complex_Main "HOL-Library.Word" "HOL-Library.AList" "HOL-Library.Log_Nat"
begin

section \<open>Values of the program\<close>

text \<open>
  The TTS layer of phantom-vrm is JavaScript. Its configuration and its HTTP bodies are
  JSON values; the value \<^verbatim>\<open>undefined\<close> (an absent property, an absent argument) is
  \<open>None\<close> of \<open>json option\<close>. A JavaScript string is a sequence of code units and
  \<^verbatim>\<open>text.length\<close> counts them: one element of a \<open>string\<close> stands for one code
  unit. JavaScript numbers are IEEE doubles. The text estimate is computed with exact
  rationals: the doubles of its one division and one multiplication differ from them
  by a relative error below \<open>2\<^sup>-\<^sup>5\<^sup>1\<close>, and nothing rounds the estimate
  afterwards. The file-size duration, which \<^verbatim>\<open>Math.round\<close> turns into an integer,
  is computed with the doubles themselves (section on double arithmetic).
\<close>

datatype json =
    JNull
  | JBool bool
  | JNum rat
  | JStr string
  | JArr "json list"
  | JObj "(string \<times> json) list"

type_synonym bytes = "8 word list"

text \<open>Truthiness, as tested by \<^verbatim>\<open>||\<close>, \<^verbatim>\<open>!\<close> and \<^verbatim>\<open>if\<close>.\<close>

fun truthy :: "json option \<Rightarrow> bool" where
  "truthy None = False"
| "truthy (Some JNull) = False"
| "truthy (Some (JBool b)) = b"
| "truthy (Some (JNum n)) = (n \<noteq> 0)"
| "truthy (Some (JStr s)) = (s \<noteq> [])"
| "truthy (Some (JArr xs)) = True"
| "truthy (Some (JObj kvs)) = True"

text \<open>\<^verbatim>\<open>v || d\<close> with a default \<open>d\<close> that is a value.\<close>

definition or_else :: "json option \<Rightarrow> json \<Rightarrow> json" where
  "or_else v d = (case v of Some x \<Rightarrow> if truthy v then x else d | None \<Rightarrow> d)"

text \<open>
  \<^verbatim>\<open>obj.key\<close> and \<^verbatim>\<open>obj?.key\<close> for the keys this program reads from its
  configuration and from Google's response: an own property of an object,
  \<^verbatim>\<open>undefined\<close> on every other value (none of the keys is a member of a built-in
  prototype). The first binding of a key in the list is the object's property.
\<close>

fun get_prop :: "json option \<Rightarrow> string \<Rightarrow> json option" where
  "get_prop (Some (JObj kvs)) k = map_of kvs k"
| "get_prop v k = None"

text \<open>
  Conversion of a value to a string, as done by a template literal, by \<^verbatim>\<open>+\<close> with a
  string, by \<^verbatim>\<open>new URL\<close> and by the use of a value as a property key. How a number
  prints is the library's business (the parameter \<open>num\<close>). An object is converted by
  its \<^verbatim>\<open>toString\<close>, then its \<^verbatim>\<open>valueOf\<close>: a parsed JSON object inherits both from
  \<^verbatim>\<open>Object.prototype\<close> and prints as \<^verbatim>\<open>[object Object]\<close>, unless it has an own
  property \<^verbatim>\<open>toString\<close>, which is never callable in JSON; then the conversion throws
  a \<^verbatim>\<open>TypeError\<close>, here \<open>None\<close>. An array joins the conversions of its elements,
  \<^verbatim>\<open>null\<close> printing as nothing, and throws when one of them throws.
\<close>

fun join_comma :: "string list \<Rightarrow> string" where
  "join_comma [] = []"
| "join_comma [s] = s"
| "join_comma (s # t # ss) = s @ '','' @ join_comma (t # ss)"

fun to_str :: "(rat \<Rightarrow> string) \<Rightarrow> json \<Rightarrow> string option" where
  "to_str num JNull = Some ''null''"
| "to_str num (JBool b) = Some (if b then ''true'' else ''false'')"
| "to_str num (JNum n) = Some (num n)"
| "to_str num (JStr s) = Some s"
| "to_str num (JArr xs) =
     map_option join_comma
       (those (map (\<lambda>x. if x = JNull then Some [] else to_str num x) xs))"
| "to_str num (JObj kvs) =
     (if map_of kvs ''toString'' = None then Some ''[object Object]'' else None)"

section \<open>Duration estimator\<close>

text \<open>
  \<^verbatim>\<open>estimateDuration\<close> is defined five times (tts/index.js, tts/piper.js,
  tts/voicevox.js, tts/api.js and server.js), each time with the same body:
  \<^verbatim>\<open>Math.max(500, (text.length / charsPerSecond) * 1000)\<close> with
  \<^verbatim>\<open>charsPerSecond = 12\<close>. No copy rounds.
\<close>

definition charsPerSecond :: rat where
  "charsPerSecond = 12"

definition estimateDuration :: "string \<Rightarrow> rat" where
  "estimateDuration text = max 500 ((of_nat (length text) / charsPerSecond) * 1000)"

text \<open>\<^verbatim>\<open>Math.round\<close>: the nearest integer, a half going up.\<close>

definition math_round :: "rat \<Rightarrow> rat" where
  "math_round x = of_int \<lfloor>x + 1 / 2\<rfloor>"

text \<open>The estimator as the specification words it:
  \<^verbatim>\<open>max(500, round(1000 * len(text) / 12))\<close>.\<close>

definition spec_estimate :: "string \<Rightarrow> rat" where
  "spec_estimate text = max 500 (math_round (1000 * of_nat (length text) / 12))"

section \<open>Double arithmetic\<close>

text \<open>
  \<^verbatim>\<open>getAudioDuration\<close> divides and multiplies doubles and rounds the result to an
  integer, so the rounding of each operation can show: \<^verbatim>\<open>(8008 / 16000) * 1000\<close> is
  \<open>500.49999999999994\<close>. An operation on doubles returns the double nearest to the exact
  result, a tie going to the even significand. \<open>double_of\<close> is that rounding for values
  in the normal range of the format (from \<open>2\<^sup>-\<^sup>1\<^sup>0\<^sup>2\<^sup>2\<close> up to \<open>2\<^sup>1\<^sup>0\<^sup>2\<^sup>4\<close>), where file sizes
  and the durations computed from them lie: the value is scaled to a significand between
  \<open>2\<^sup>5\<^sup>2\<close> and \<open>2\<^sup>5\<^sup>3\<close>, which is rounded to an integer.
\<close>

definition pow2 :: "int \<Rightarrow> rat" where
  "pow2 k = (if 0 \<le> k then 2 ^ nat k else 1 / 2 ^ nat (- k))"

text \<open>The integer \<open>e\<close> with \<open>2\<^sup>e \<le> x < 2\<^sup>e\<^sup>+\<^sup>1\<close>, for positive \<open>x\<close>.\<close>

definition binary_exponent :: "rat \<Rightarrow> int" where
  "binary_exponent x =
     (if 1 \<le> x then int (floorlog 2 (nat \<lfloor>x\<rfloor>)) - 1
      else (let j = int (floorlog 2 (nat \<lfloor>1 / x\<rfloor>)) - 1
            in if 1 / x = pow2 j then - j else - (j + 1)))"

definition round_half_even :: "rat \<Rightarrow> int" where
  "round_half_even x =
     (let f = \<lfloor>x\<rfloor>; d = x - of_int f
      in if d < 1 / 2 then f else if 1 / 2 < d then f + 1 else if even f then f else f + 1)"

definition double_of :: "rat \<Rightarrow> rat" where
  "double_of x =
     (if x = 0 then 0
      else (let e = binary_exponent \<bar>x\<bar> - 52;
                m = round_half_even (\<bar>x\<bar> / pow2 e)
            in sgn x * of_int m * pow2 e))"

text \<open>
  \<^verbatim>\<open>
  const estimatedSeconds = stats.size / 16000;
  return Math.round(estimatedSeconds * 1000);
  \<close>
  A file size is an integer below \<open>2\<^sup>5\<^sup>3\<close> and so a double itself.
\<close>

definition duration_of_size :: "nat \<Rightarrow> rat" where
  "duration_of_size n = math_round (double_of (double_of (of_nat n / 16000) * 1000))"

section \<open>Strings and paths\<close>

definition dquote :: char where
  "dquote = CHR 0x22"

definition backslash :: char where
  "backslash = CHR 0x5C"

definition squoted :: "string \<Rightarrow> string" where
  "squoted s = [CHR 0x27] @ s @ [CHR 0x27]"

text \<open>
  \<^verbatim>\<open>s.replace(pat, rep)\<close> with a string pattern replaces the first occurrence only.
  In the replacement a dollar sign followed by a dollar sign, an ampersand, a backquote
  or a quote stands for a dollar sign, the matched text, the text before it and the text
  after it; with a string pattern there are no groups, and every other dollar sign is
  itself.
\<close>

fun substitution :: "string \<Rightarrow> string \<Rightarrow> string \<Rightarrow> string \<Rightarrow> string" where
  "substitution matched before after (c # d # rest) =
     (if c = CHR ''$'' \<and> d = CHR ''$'' then CHR ''$'' # substitution matched before after rest
      else if c = CHR ''$'' \<and> d = CHR ''&'' then matched @ substitution matched before after rest
      else if c = CHR ''$'' \<and> d = CHR 0x60 then before @ substitution matched before after rest
      else if c = CHR ''$'' \<and> d = CHR 0x27 then after @ substitution matched before after rest
      else c # substitution matched before after (d # rest))"
| "substitution matched before after cs = cs"

fun replace_from :: "string \<Rightarrow> string \<Rightarrow> string \<Rightarrow> string \<Rightarrow> string" where
  "replace_from pat rep before [] =
     (if pat = [] then before @ substitution [] before [] rep else before)"
| "replace_from pat rep before (c # cs) =
     (if take (length pat) (c # cs) = pat
      then before @ substitution pat before (drop (length pat) (c # cs)) rep
           @ drop (length pat) (c # cs)
      else replace_from pat rep (before @ [c]) cs)"

definition replace_first :: "string \<Rightarrow> string \<Rightarrow> string \<Rightarrow> string" where
  "replace_first pat rep s = replace_from pat rep [] s"

text \<open>\<^verbatim>\<open>text.replace(/"/g, '\\"')\<close>: every double quote gets a backslash.\<close>

definition escape_quotes :: "string \<Rightarrow> string" where
  "escape_quotes s = concat (map (\<lambda>c. if c = dquote then [backslash, dquote] else [c]) s)"

text \<open>\<^verbatim>\<open>s.includes(pat)\<close>.\<close>

fun str_includes :: "string \<Rightarrow> string \<Rightarrow> bool" where
  "str_includes [] pat = (pat = [])"
| "str_includes (c # cs) pat = (take (length pat) (c # cs) = pat \<or> str_includes cs pat)"

text \<open>\<^verbatim>\<open>s.split(d)\<close> for a one-character separator.\<close>

fun split_on :: "char \<Rightarrow> string \<Rightarrow> string list" where
  "split_on d [] = [] # []"
| "split_on d (c # cs) =
     (if c = d then [] # split_on d cs
      else (case split_on d cs of x # xs \<Rightarrow> (c # x) # xs | [] \<Rightarrow> [c] # []))"

text \<open>
  \<^verbatim>\<open>path.join(dir, file)\<close> on the platforms of the repository (Linux, macOS): the
  non-empty arguments are joined with a slash and the result is normalised. Normalising
  drops empty and \<^verbatim>\<open>.\<close> segments, lets a \<^verbatim>\<open>..\<close> segment remove the segment before it
  (at the root of an absolute path it is dropped, at the start of a relative one it
  stays), and keeps a leading and a trailing slash.
\<close>

fun resolve_dots :: "bool \<Rightarrow> string list \<Rightarrow> string list \<Rightarrow> string list" where
  "resolve_dots rel acc [] = rev acc"
| "resolve_dots rel acc (seg # segs) =
     (if seg = [] \<or> seg = ''.'' then resolve_dots rel acc segs
      else if seg = ''..'' then
        (case acc of
           [] \<Rightarrow> if rel then resolve_dots rel [seg] segs else resolve_dots rel [] segs
         | prev # before \<Rightarrow>
             if prev = ''..'' then resolve_dots rel (seg # acc) segs
             else resolve_dots rel before segs)
      else resolve_dots rel (seg # acc) segs)"

fun join_slash :: "string list \<Rightarrow> string" where
  "join_slash [] = []"
| "join_slash [s] = s"
| "join_slash (s # t # ss) = s @ ''/'' @ join_slash (t # ss)"

definition path_normalize :: "string \<Rightarrow> string" where
  "path_normalize p =
     (if p = [] then ''.''
      else (let isAbsolute = (hd p = CHR ''/'');
                trailingSeparator = (last p = CHR ''/'');
                body = join_slash (resolve_dots (\<not> isAbsolute) [] (split_on (CHR ''/'') p))
            in if body = [] then
                 (if isAbsolute then ''/'' else if trailingSeparator then ''./'' else ''.'')
               else (if isAbsolute then ''/'' else []) @ body
                    @ (if trailingSeparator then ''/'' else [])))"

definition path_join :: "string \<Rightarrow> string \<Rightarrow> string" where
  "path_join dir file =
     (if dir = [] then path_normalize file
      else if file = [] then path_normalize dir
      else path_normalize (dir @ ''/'' @ file))"

section \<open>Errors, promises, results\<close>

datatype js_error =
    ReferenceError string
  | TypeError string
  | SyntaxError string
  | URIError string
  | Error string

text \<open>What a failed conversion to a string throws.\<close>

definition conversion_error :: js_error where
  "conversion_error = TypeError ''Cannot convert object to primitive value''"

text \<open>
  An \<^verbatim>\<open>async\<close> function returns a promise. It resolves with the returned value and
  rejects with whatever is thrown in the function's body or passed to \<^verbatim>\<open>reject\<close>.
  An exception thrown inside an event callback (\<^verbatim>\<open>res.on('end', ...)\<close>) after the
  promise was handed out is neither: the promise stays pending for ever and the
  exception is the process's uncaught exception. That third outcome is \<open>Unsettled\<close>.
\<close>

datatype 'a promise = Resolved 'a | Rejected js_error | Unsettled js_error

record synth_result =
  audioUrl :: "string option"
  duration :: rat

section \<open>The world outside: library, network, processes, files\<close>

record url =
  url_protocol :: string
  url_hostname :: string
  url_port :: string
  url_pathname :: string
  url_search :: string

text \<open>What reading a path of keys in a parsed response can give: nothing, a JSON value,
  or a value that is not JSON (an inherited method, a prototype object).\<close>

datatype member = Undefined | Val json | Native

text \<open>
  Library functions of Node that the adapters call and whose code is not part of the
  repository. They are pure; the model takes them as parameters.
  \<open>json_parse\<close>, \<open>parse_url\<close> and \<open>encodeURIComponent\<close> are \<open>None\<close> where the
  library throws; \<open>buffer_from_object\<close> is \<^verbatim>\<open>Buffer.from\<close> on an array or object;
  \<open>builtin_walk v keys\<close> is the result of reading the keys one after the other with
  \<^verbatim>\<open>?.[key]\<close>, starting at \<open>v\<close>, when the first key is not an own property of a
  parsed object \<open>v\<close> (an index or the length of an array or string, an inherited member).
\<close>

record lib =
  md5_hex :: "string \<Rightarrow> string"
  number_to_string :: "rat \<Rightarrow> string"
  json_parse :: "string \<Rightarrow> json option"
  json_stringify :: "json \<Rightarrow> string"
  parse_url :: "string \<Rightarrow> url option"
  base64_decode :: "string \<Rightarrow> bytes"
  buffer_from_object :: "json \<Rightarrow> bytes option"
  builtin_walk :: "json \<Rightarrow> string list \<Rightarrow> member"
  utf8_string :: "bytes \<Rightarrow> string"
  byte_length :: "string \<Rightarrow> nat"
  encodeURIComponent :: "string \<Rightarrow> string option"

record http_request =
  req_secure :: bool
  req_hostname :: string
  req_port :: string
  req_path :: string
  req_method :: json
  req_headers :: json
  req_body :: "string option"

text \<open>What comes of one request: a failure (the \<^verbatim>\<open>'error'\<close> or \<^verbatim>\<open>'timeout'\<close> event
  of the request, or \<^verbatim>\<open>request()\<close> itself refusing its options, which inside the
  promise's executor rejects the promise just the same), or a complete response: status
  code, \<^verbatim>\<open>content-type\<close> header (empty when absent) and body.\<close>

datatype http_outcome =
    RequestError string
  | Response nat string bytes

text \<open>
  How the world answers during one call: the transport; the shell
  (\<^verbatim>\<open>execSync\<close>: whether the command exits with status 0 in time, and what it does to
  the files); the disk (\<open>open_fails p\<close>: \<open>p\<close> cannot be opened for writing and nothing
  is created; \<open>disk_fault p = Some k\<close>: a write to \<open>p\<close> fails once \<open>k\<close> bytes are in the
  file); the process environment; the clock.
\<close>

record io =
  http_transport :: "http_request \<Rightarrow> http_outcome"
  run_command :: "string \<Rightarrow> (string \<rightharpoonup> bytes) \<Rightarrow> bool \<times> (string \<rightharpoonup> bytes)"
  disk_fault :: "string \<Rightarrow> nat option"
  open_fails :: "string \<Rightarrow> bool"
  process_env :: "string \<rightharpoonup> string"
  date_now :: rat

datatype event =
    ConsoleLog string
  | ConsoleWarn string
  | ConsoleError string
  | FsExists string
  | FsStat string
  | FsWrite string
  | HttpRequest http_request
  | ExecSync string

text \<open>The state a call runs in: the files, and the operations performed so far.
  A console event keeps the message's fixed words (without the pictograph that opens
  some of them) and the text excerpt; the error object printed after
  \<^verbatim>\<open>console.error\<close>'s label is left out. \<open>FsWrite p\<close> is an opened file \<open>p\<close>.\<close>

record sys =
  files :: "string \<rightharpoonup> bytes"
  events :: "event list"

definition emit :: "event \<Rightarrow> sys \<Rightarrow> sys" where
  "emit e s = s\<lparr>events := events s @ [e]\<rparr>"

definition existsSync :: "string \<Rightarrow> sys \<Rightarrow> bool \<times> sys" where
  "existsSync p s = (files s p \<noteq> None, emit (FsExists p) s)"

definition statSync_size :: "string \<Rightarrow> sys \<Rightarrow> nat \<times> sys" where
  "statSync_size p s =
     ((case files s p of Some bs \<Rightarrow> length bs | None \<Rightarrow> 0), emit (FsStat p) s)"

text \<open>
  \<^verbatim>\<open>fs.writeFileSync(p, bs)\<close> and \<^verbatim>\<open>res.pipe(fs.createWriteStream(p))\<close>: both
  open \<open>p\<close> for writing, which creates or empties the file, and write into it. When the
  file cannot be opened nothing changes; when the disk fails part-way, the bytes written
  so far stay in the file. In both cases \<^verbatim>\<open>writeFileSync\<close> throws and the stream
  emits \<^verbatim>\<open>'error'\<close> instead of \<^verbatim>\<open>'finish'\<close>. The flag is whether the write completed.
\<close>

definition write_bytes :: "io \<Rightarrow> string \<Rightarrow> bytes \<Rightarrow> sys \<Rightarrow> bool \<times> sys" where
  "write_bytes io p bs s =
     (if open_fails io p then (False, s)
      else (let written = (case disk_fault io p of None \<Rightarrow> bs | Some k \<Rightarrow> take k bs)
            in (written = bs, emit (FsWrite p) (s\<lparr>files := (files s)(p \<mapsto> written)\<rparr>))))"

definition execSync :: "io \<Rightarrow> string \<Rightarrow> sys \<Rightarrow> bool \<times> sys" where
  "execSync io cmd s =
     (let (ok, fs) = run_command io cmd (files s)
      in (ok, emit (ExecSync cmd) (s\<lparr>files := fs\<rparr>)))"

definition http_send :: "io \<Rightarrow> http_request \<Rightarrow> sys \<Rightarrow> http_outcome \<times> sys" where
  "http_send io r s = (http_transport io r, emit (HttpRequest r) s)"

section \<open>Audio duration from the file size (tts/api.js)\<close>

text \<open>
  \<^verbatim>\<open>
  function getAudioDuration(filePath) {
    if (fs.existsSync(filePath)) {
      const stats = fs.statSync(filePath);
      const estimatedSeconds = stats.size / 16000;
      return Math.round(estimatedSeconds * 1000);
    }
    return 0;
  }
  \<close>
\<close>

definition getAudioDuration :: "string \<Rightarrow> sys \<Rightarrow> rat \<times> sys" where
  "getAudioDuration filePath s =
     (let (ex, s1) = existsSync filePath s
      in if ex then
           (let (size, s2) = statSync_size filePath s1
            in (duration_of_size size, s2))
         else (0, s1))"

section \<open>Adapters\<close>

text \<open>
  Every \<^verbatim>\<open>create...TTS\<close> returns an object with a \<^verbatim>\<open>name\<close> and an
  \<^verbatim>\<open>async synthesize(text, outputDir)\<close> that closes over the settings read at
  construction. An adapter is the variant together with the values it closed over,
  in the order the constructor binds them. The settings are whatever JSON the
  configuration holds; where \<^verbatim>\<open>synthesize\<close> puts one into a string the conversion
  can throw, inside a \<^verbatim>\<open>try\<close> in the local engines and in the open in the hosted
  ones, where it rejects the call.
\<close>

datatype adapter =
    DummyTTS
  | PiperTTS json json bool
  | VoicevoxTTS json json json json json
  | OpenAITTS json json json
  | GoogleTTS json json json json
  | AzureTTS json json json
  | GenericAPITTS json json json json json json
  | CustomTTS json

fun adapter_name :: "adapter \<Rightarrow> string" where
  "adapter_name DummyTTS = ''none''"
| "adapter_name (PiperTTS command model available) = ''piper''"
| "adapter_name (VoicevoxTTS baseUrl speaker pitchScale speedScale intonationScale) = ''voicevox''"
| "adapter_name (OpenAITTS apiKey model voice) = ''openai''"
| "adapter_name (GoogleTTS apiKey languageCode voiceName ssmlGender) = ''google''"
| "adapter_name (AzureTTS subscriptionKey region voice) = ''azure''"
| "adapter_name (GenericAPITTS u method headers bodyTemplate audioPathInResponse audioFormat) =
     ''generic-api''"
| "adapter_name (CustomTTS config) = ''custom''"

text \<open>\<^verbatim>\<open>a || b\<close> where \<open>b\<close> may be \<^verbatim>\<open>undefined\<close> (an environment variable).\<close>

definition js_or :: "json option \<Rightarrow> json option \<Rightarrow> json option" where
  "js_or a b = (if truthy a then a else b)"

definition getenv :: "io \<Rightarrow> string \<Rightarrow> json option" where
  "getenv io name = map_option JStr (process_env io name)"

subsection \<open>Disabled engine: createDummyTTS (tts/index.js and tts/api.js, same body)\<close>

definition dummy_synthesize :: "string \<Rightarrow> sys \<Rightarrow> synth_result promise \<times> sys" where
  "dummy_synthesize text s =
     (Resolved \<lparr>audioUrl = None, duration = estimateDuration text\<rparr>, s)"

subsection \<open>Piper (tts/piper.js)\<close>

text \<open>The \<^verbatim>\<open>which\<close> probe sits in a \<^verbatim>\<open>try\<close>; a command that cannot be put
  into the string is a probe that failed.\<close>

definition createPiperTTS :: "lib \<Rightarrow> io \<Rightarrow> json \<Rightarrow> sys \<Rightarrow> adapter \<times> sys" where
  "createPiperTTS lib io config s =
     (let command = or_else (get_prop (Some config) ''command'') (JStr ''piper'');
          model = or_else (get_prop (Some config) ''model'') (JStr ''ja_JP-test-medium'')
      in case to_str (number_to_string lib) command of
           None \<Rightarrow>
             (PiperTTS command model False,
              emit (ConsoleWarn ''Piper not found, using fake lipsync'') s)
         | Some c \<Rightarrow>
             (let (found, s1) = execSync io (''which '' @ c) s
              in if found then (PiperTTS command model True, s1)
                 else (PiperTTS command model False,
                       emit (ConsoleWarn ''Piper not found, using fake lipsync'') s1)))"

text \<open>The command line of one Piper run; \<open>None\<close> when the template literal throws.\<close>

definition piper_command :: "lib \<Rightarrow> json \<Rightarrow> json \<Rightarrow> string \<Rightarrow> string \<Rightarrow> string option" where
  "piper_command lib command model text outputFile =
     (case to_str (number_to_string lib) command of
        None \<Rightarrow> None
      | Some c \<Rightarrow>
          (case to_str (number_to_string lib) model of
             None \<Rightarrow> None
           | Some m \<Rightarrow>
               Some (''echo '' @ [dquote] @ escape_quotes text @ [dquote] @ '' | '' @ c
                     @ '' --model '' @ m
                     @ '' --output_file '' @ [dquote] @ outputFile @ [dquote])))"

definition piper_synthesize ::
  "lib \<Rightarrow> io \<Rightarrow> json \<Rightarrow> json \<Rightarrow> bool \<Rightarrow> string \<Rightarrow> string \<Rightarrow> sys \<Rightarrow> synth_result promise \<times> sys"
where
  "piper_synthesize lib io command model available text outputDir s =
     (let hash = md5_hex lib text;
          outputFile = path_join outputDir (hash @ ''.wav'');
          (cached, s1) = existsSync outputFile s
      in if cached then
           (Resolved \<lparr>audioUrl = Some (''/audio/'' @ hash @ ''.wav''),
                      duration = estimateDuration text\<rparr>,
            emit (ConsoleLog (''TTS cached: '' @ take 30 text @ ''...'')) s1)
         else if \<not> available then
           (Resolved \<lparr>audioUrl = None, duration = estimateDuration text\<rparr>, s1)
         else
           (case piper_command lib command model text outputFile of
              None \<Rightarrow>
                (Resolved \<lparr>audioUrl = None, duration = estimateDuration text\<rparr>,
                 emit (ConsoleError ''Piper TTS error:'') s1)
            | Some cmd \<Rightarrow>
                (let (ok, s2) = execSync io cmd s1
                 in if ok then
                      (let (made, s3) = existsSync outputFile s2
                       in if made then
                            (Resolved \<lparr>audioUrl = Some (''/audio/'' @ hash @ ''.wav''),
                                       duration = estimateDuration text\<rparr>,
                             emit (ConsoleLog (''TTS generated: '' @ take 30 text @ ''...'')) s3)
                          else
                            (Resolved \<lparr>audioUrl = None, duration = estimateDuration text\<rparr>,
                             s3))
                    else
                      (Resolved \<lparr>audioUrl = None, duration = estimateDuration text\<rparr>,
                       emit (ConsoleError ''Piper TTS error:'') s2))))"

subsection \<open>VOICEVOX (tts/voicevox.js)\<close>

text \<open>The request both helpers build from a URL and a body.\<close>

definition post_request :: "lib \<Rightarrow> url \<Rightarrow> string \<Rightarrow> http_request" where
  "post_request lib u postData =
     \<lparr>req_secure = (url_protocol u = ''https:''),
      req_hostname = url_hostname u,
      req_port = (if url_port u \<noteq> [] then url_port u
                  else if url_protocol u = ''https:'' then ''443'' else ''80''),
      req_path = url_pathname u @ url_search u,
      req_method = JStr ''POST'',
      req_headers = JObj [(''Content-Type'', JStr ''application/json''),
                          (''Content-Length'', JNum (of_nat (byte_length lib postData)))],
      req_body = Some postData\<rparr>"

text \<open>\<^verbatim>\<open>httpPost\<close>: no status check; a body that is not JSON resolves as a string.\<close>

definition httpPost :: "lib \<Rightarrow> io \<Rightarrow> string \<Rightarrow> json \<Rightarrow> sys \<Rightarrow> (js_error + json) \<times> sys" where
  "httpPost lib io urlString data s =
     (case parse_url lib urlString of
        None \<Rightarrow> (Inl (TypeError ''Invalid URL''), s)
      | Some u \<Rightarrow>
          (let postData = json_stringify lib data;
               (out, s1) = http_send io (post_request lib u postData) s
           in case out of
                RequestError e \<Rightarrow> (Inl (Error e), s1)
              | Response status ctype body \<Rightarrow>
                  (case json_parse lib (utf8_string lib body) of
                     Some j \<Rightarrow> (Inr j, s1)
                   | None \<Rightarrow> (Inr (JStr (utf8_string lib body)), s1))))"

text \<open>\<^verbatim>\<open>httpPostBinary\<close>: no status check either; resolves with the body's bytes.\<close>

definition httpPostBinary ::
  "lib \<Rightarrow> io \<Rightarrow> string \<Rightarrow> json \<Rightarrow> sys \<Rightarrow> (js_error + bytes) \<times> sys"
where
  "httpPostBinary lib io urlString data s =
     (case parse_url lib urlString of
        None \<Rightarrow> (Inl (TypeError ''Invalid URL''), s)
      | Some u \<Rightarrow>
          (let postData = (case data of JStr d \<Rightarrow> d | _ \<Rightarrow> json_stringify lib data);
               (out, s1) = http_send io (post_request lib u postData) s
           in case out of
                RequestError e \<Rightarrow> (Inl (Error e), s1)
              | Response status ctype body \<Rightarrow> (Inr body, s1)))"

text \<open>\<^verbatim>\<open>obj.key = v\<close>: sets the property of an object; on a string, number or boolean
  the assignment is dropped (the module is not in strict mode); on an array it adds a
  named property that \<^verbatim>\<open>JSON.stringify\<close> does not print.\<close>

fun set_prop :: "string \<Rightarrow> json \<Rightarrow> json \<Rightarrow> json" where
  "set_prop k v (JObj kvs) = JObj (AList.update k v kvs)"
| "set_prop k v j = j"

text \<open>The two URLs and the log line of one VOICEVOX call; each is \<open>None\<close> when its
  template literal throws (a setting that cannot be converted, a text that
  \<^verbatim>\<open>encodeURIComponent\<close> refuses).\<close>

definition voicevox_query_url :: "lib \<Rightarrow> json \<Rightarrow> json \<Rightarrow> string \<Rightarrow> string option" where
  "voicevox_query_url lib baseUrl speaker text =
     (case to_str (number_to_string lib) baseUrl of
        None \<Rightarrow> None
      | Some b \<Rightarrow>
          (case encodeURIComponent lib text of
             None \<Rightarrow> None
           | Some encoded \<Rightarrow>
               (case to_str (number_to_string lib) speaker of
                  None \<Rightarrow> None
                | Some sp \<Rightarrow> Some (b @ ''/audio_query?text='' @ encoded @ ''&speaker='' @ sp))))"

definition voicevox_params_line :: "lib \<Rightarrow> json \<Rightarrow> json \<Rightarrow> json \<Rightarrow> string option" where
  "voicevox_params_line lib pitchScale speedScale intonationScale =
     (case to_str (number_to_string lib) pitchScale of
        None \<Rightarrow> None
      | Some pitch \<Rightarrow>
          (case to_str (number_to_string lib) speedScale of
             None \<Rightarrow> None
           | Some speed \<Rightarrow>
               (case to_str (number_to_string lib) intonationScale of
                  None \<Rightarrow> None
                | Some intonation \<Rightarrow>
                    Some (''VOICEVOX params: pitch='' @ pitch @ '', speed='' @ speed
                          @ '', intonation='' @ intonation))))"

definition voicevox_synth_url :: "lib \<Rightarrow> json \<Rightarrow> json \<Rightarrow> string option" where
  "voicevox_synth_url lib baseUrl speaker =
     (case to_str (number_to_string lib) baseUrl of
        None \<Rightarrow> None
      | Some b \<Rightarrow>
          (case to_str (number_to_string lib) speaker of
             None \<Rightarrow> None
           | Some sp \<Rightarrow> Some (b @ ''/synthesis?speaker='' @ sp)))"

text \<open>Everything from \<^verbatim>\<open>audio_query\<close> to the return sits in one \<^verbatim>\<open>try\<close>, whose
  \<^verbatim>\<open>catch\<close> logs and falls through to the return without audio.\<close>

definition voicevox_failed :: "string \<Rightarrow> sys \<Rightarrow> synth_result promise \<times> sys" where
  "voicevox_failed text s =
     (Resolved \<lparr>audioUrl = None, duration = estimateDuration text\<rparr>,
      emit (ConsoleError ''VOICEVOX error:'') s)"

definition voicevox_synthesize ::
  "lib \<Rightarrow> io \<Rightarrow> json \<Rightarrow> json \<Rightarrow> json \<Rightarrow> json \<Rightarrow> json \<Rightarrow> string \<Rightarrow> string \<Rightarrow> sys
   \<Rightarrow> synth_result promise \<times> sys"
where
  "voicevox_synthesize lib io baseUrl speaker pitchScale speedScale intonationScale
       text outputDir s =
     (let hash = md5_hex lib text;
          outputFile = path_join outputDir (hash @ ''.wav'');
          (cached, s1) = existsSync outputFile s
      in if cached then
           (Resolved \<lparr>audioUrl = Some (''/audio/'' @ hash @ ''.wav''),
                      duration = estimateDuration text\<rparr>,
            emit (ConsoleLog (''VOICEVOX cached: '' @ take 30 text @ ''...'')) s1)
         else
           (case voicevox_query_url lib baseUrl speaker text of
              None \<Rightarrow> voicevox_failed text s1
            | Some queryUrl \<Rightarrow>
                (let (q, s2) = httpPost lib io queryUrl (JObj []) s1
                 in case q of
                      Inl e \<Rightarrow> voicevox_failed text s2
                    | Inr queryResult \<Rightarrow>
                        if \<not> truthy (Some queryResult) then voicevox_failed text s2
                        else
                          (let query = set_prop ''intonationScale'' intonationScale
                                 (set_prop ''speedScale'' speedScale
                                   (set_prop ''pitchScale'' pitchScale queryResult))
                           in case voicevox_params_line lib pitchScale speedScale
                                     intonationScale of
                                None \<Rightarrow> voicevox_failed text s2
                              | Some line \<Rightarrow>
                                  (case voicevox_synth_url lib baseUrl speaker of
                                     None \<Rightarrow> voicevox_failed text (emit (ConsoleLog line) s2)
                                   | Some synthUrl \<Rightarrow>
                                       (let (a, s4) = httpPostBinary lib io synthUrl query
                                                        (emit (ConsoleLog line) s2)
                                        in case a of
                                             Inl e \<Rightarrow> voicevox_failed text s4
                                           | Inr audioBuffer \<Rightarrow>
                                               (let (ok, s5) =
                                                      write_bytes io outputFile audioBuffer s4
                                                in if ok then
                                                     (Resolved
                                                        \<lparr>audioUrl = Some (''/audio/'' @ hash
                                                                            @ ''.wav''),
                                                         duration = estimateDuration text\<rparr>,
                                                      emit (ConsoleLog (''VOICEVOX generated: ''
                                                              @ take 30 text @ ''...'')) s5)
                                                   else voicevox_failed text s5)))))))"

definition createVoicevoxTTS :: "json \<Rightarrow> adapter" where
  "createVoicevoxTTS config =
     VoicevoxTTS (or_else (get_prop (Some config) ''url'') (JStr ''http://localhost:50021''))
                 (or_else (get_prop (Some config) ''speaker'') (JNum 1))
                 (or_else (get_prop (Some config) ''pitchScale'') (JNum 0))
                 (or_else (get_prop (Some config) ''speedScale'') (JNum 1))
                 (or_else (get_prop (Some config) ''intonationScale'') (JNum 1))"

subsection \<open>Hosted services (tts/api.js)\<close>

text \<open>The cache-hit return that opens each hosted \<^verbatim>\<open>synthesize\<close>, and the
  \<^verbatim>\<open>resolve({audioUrl, duration: getAudioDuration(outputFile)})\<close> that closes it.\<close>

definition audio_result :: "string \<Rightarrow> string \<Rightarrow> sys \<Rightarrow> synth_result promise \<times> sys" where
  "audio_result url outputFile s =
     (let (d, s1) = getAudioDuration outputFile s
      in (Resolved \<lparr>audioUrl = Some url, duration = d\<rparr>, s1))"

definition openai_synthesize ::
  "lib \<Rightarrow> io \<Rightarrow> json \<Rightarrow> json \<Rightarrow> json \<Rightarrow> string \<Rightarrow> string \<Rightarrow> sys \<Rightarrow> synth_result promise \<times> sys"
where
  "openai_synthesize lib io apiKey model voice text outputDir s =
     (case to_str (number_to_string lib) voice of
        None \<Rightarrow> (Rejected conversion_error, s)
      | Some v \<Rightarrow>
          (let hash = md5_hex lib (text @ v);
               outputFile = path_join outputDir (hash @ ''.mp3'');
               (cached, s1) = existsSync outputFile s
           in if cached then audio_result (''/audio/'' @ hash @ ''.mp3'') outputFile s1
              else
                (let postData = json_stringify lib
                       (JObj [(''model'', model), (''input'', JStr text), (''voice'', voice)])
                 in case to_str (number_to_string lib) apiKey of
                      None \<Rightarrow> (Rejected conversion_error, s1)
                    | Some key \<Rightarrow>
                        (let options =
                               \<lparr>req_secure = True,
                                req_hostname = ''api.openai.com'',
                                req_port = [],
                                req_path = ''/v1/audio/speech'',
                                req_method = JStr ''POST'',
                                req_headers = JObj
                                  [(''Content-Type'', JStr ''application/json''),
                                   (''Authorization'', JStr (''Bearer '' @ key)),
                                   (''Content-Length'',
                                    JNum (of_nat (byte_length lib postData)))],
                                req_body = Some postData\<rparr>;
                             (out, s2) = http_send io options s1
                         in case out of
                              RequestError e \<Rightarrow> (Rejected (Error e), s2)
                            | Response statusCode ctype body \<Rightarrow>
                                if statusCode \<noteq> 200 then
                                  (Rejected (Error (''OpenAI API error: ''
                                       @ number_to_string lib (of_nat statusCode) @ '' - ''
                                       @ utf8_string lib body)), s2)
                                else
                                  (let (finished, s3) = write_bytes io outputFile body s2
                                   in if finished then
                                        audio_result (''/audio/'' @ hash @ ''.mp3'') outputFile s3
                                      else (Rejected (Error ''write stream error''), s3))))))"

text \<open>\<^verbatim>\<open>Buffer.from(v, 'base64')\<close>: decodes a string, converts an array or an
  array-like object, and throws a \<^verbatim>\<open>TypeError\<close> on everything else, \<^verbatim>\<open>undefined\<close>
  and functions included.\<close>

definition buffer_from :: "lib \<Rightarrow> member \<Rightarrow> js_error + bytes" where
  "buffer_from lib v =
     (case v of
        Val (JStr b64) \<Rightarrow> Inr (base64_decode lib b64)
      | Val (JArr xs) \<Rightarrow>
          (case buffer_from_object lib (JArr xs) of
             Some bs \<Rightarrow> Inr bs
           | None \<Rightarrow> Inl (TypeError ''The first argument must be of type string''))
      | Val (JObj kvs) \<Rightarrow>
          (case buffer_from_object lib (JObj kvs) of
             Some bs \<Rightarrow> Inr bs
           | None \<Rightarrow> Inl (TypeError ''The first argument must be of type string''))
      | _ \<Rightarrow> Inl (TypeError ''The first argument must be of type string''))"

definition as_member :: "json option \<Rightarrow> member" where
  "as_member v = (case v of None \<Rightarrow> Undefined | Some j \<Rightarrow> Val j)"

definition google_synthesize ::
  "lib \<Rightarrow> io \<Rightarrow> json \<Rightarrow> json \<Rightarrow> json \<Rightarrow> json \<Rightarrow> string \<Rightarrow> string \<Rightarrow> sys
   \<Rightarrow> synth_result promise \<times> sys"
where
  "google_synthesize lib io apiKey languageCode voiceName ssmlGender text outputDir s =
     (case to_str (number_to_string lib) languageCode of
        None \<Rightarrow> (Rejected conversion_error, s)
      | Some lc \<Rightarrow>
          (case to_str (number_to_string lib) (or_else (Some voiceName) (JStr [])) of
             None \<Rightarrow> (Rejected conversion_error, s)
           | Some vn \<Rightarrow>
               (let hash = md5_hex lib (text @ lc @ vn);
                    outputFile = path_join outputDir (hash @ ''.mp3'');
                    (cached, s1) = existsSync outputFile s
                in if cached then audio_result (''/audio/'' @ hash @ ''.mp3'') outputFile s1
                   else
                     (let postData = json_stringify lib
                            (JObj [(''input'', JObj [(''text'', JStr text)]),
                                   (''voice'', JObj [(''languageCode'', languageCode),
                                                     (''name'', voiceName),
                                                     (''ssmlGender'', ssmlGender)]),
                                   (''audioConfig'', JObj [(''audioEncoding'', JStr ''MP3'')])])
                      in case to_str (number_to_string lib) apiKey of
                           None \<Rightarrow> (Rejected conversion_error, s1)
                         | Some key \<Rightarrow>
                             (let options =
                                    \<lparr>req_secure = True,
                                     req_hostname = ''texttospeech.googleapis.com'',
                                     req_port = [],
                                     req_path = ''/v1/text:synthesize?key='' @ key,
                                     req_method = JStr ''POST'',
                                     req_headers = JObj
                                       [(''Content-Type'', JStr ''application/json''),
                                        (''Content-Length'',
                                         JNum (of_nat (byte_length lib postData)))],
                                     req_body = Some postData\<rparr>;
                                  (out, s2) = http_send io options s1
                              in case out of
                                   RequestError e \<Rightarrow> (Rejected (Error e), s2)
                                 | Response statusCode ctype body \<Rightarrow>
                                     if statusCode \<noteq> 200 then
                                       (Rejected (Error (''Google API error: ''
                                            @ number_to_string lib (of_nat statusCode) @ '' - ''
                                            @ utf8_string lib body)), s2)
                                     else
                                       (case json_parse lib (utf8_string lib body) of
                                          None \<Rightarrow>
                                            (Unsettled (SyntaxError ''Unexpected token in JSON''),
                                             s2)
                                        | Some response \<Rightarrow>
                                            if response = JNull then
                                              (Unsettled
                                                 (TypeError ''Cannot read properties of null''),
                                               s2)
                                            else
                                              (case buffer_from lib
                                                      (as_member (get_prop (Some response)
                                                                    ''audioContent'')) of
                                                 Inl e \<Rightarrow> (Unsettled e, s2)
                                               | Inr audioBuffer \<Rightarrow>
                                                   (let (ok, s3) =
                                                          write_bytes io outputFile audioBuffer s2
                                                    in if ok then
                                                         audio_result
                                                           (''/audio/'' @ hash @ ''.mp3'')
                                                           outputFile s3
                                                       else (Unsettled (Error ''write failed''),
                                                             s3)))))))))"

definition azure_synthesize ::
  "lib \<Rightarrow> io \<Rightarrow> json \<Rightarrow> json \<Rightarrow> json \<Rightarrow> string \<Rightarrow> string \<Rightarrow> sys \<Rightarrow> synth_result promise \<times> sys"
where
  "azure_synthesize lib io subscriptionKey region voice text outputDir s =
     (case to_str (number_to_string lib) voice of
        None \<Rightarrow> (Rejected conversion_error, s)
      | Some v \<Rightarrow>
          (let hash = md5_hex lib (text @ v);
               outputFile = path_join outputDir (hash @ ''.mp3'');
               (cached, s1) = existsSync outputFile s
           in if cached then audio_result (''/audio/'' @ hash @ ''.mp3'') outputFile s1
              else
                (let ssml = ''<speak version='' @ squoted ''1.0'' @ '' xml:lang=''
                            @ squoted ''en-US'' @ ''><voice xml:lang='' @ squoted ''en-US''
                            @ '' name='' @ squoted v @ ''>'' @ text @ ''</voice></speak>''
                 in case to_str (number_to_string lib) region of
                      None \<Rightarrow> (Rejected conversion_error, s1)
                    | Some rg \<Rightarrow>
                        (let options =
                               \<lparr>req_secure = True,
                                req_hostname = rg @ ''.tts.speech.microsoft.com'',
                                req_port = [],
                                req_path = ''/cognitiveservices/v1'',
                                req_method = JStr ''POST'',
                                req_headers = JObj
                                  [(''Ocp-Apim-Subscription-Key'', subscriptionKey),
                                   (''Content-Type'', JStr ''application/ssml+xml''),
                                   (''X-Microsoft-OutputFormat'',
                                    JStr ''audio-16khz-128kbitrate-mono-mp3'')],
                                req_body = Some ssml\<rparr>;
                             (out, s2) = http_send io options s1
                         in case out of
                              RequestError e \<Rightarrow> (Rejected (Error e), s2)
                            | Response statusCode ctype body \<Rightarrow>
                                if statusCode \<noteq> 200 then
                                  (Rejected (Error (''Azure API error: ''
                                       @ number_to_string lib (of_nat statusCode))), s2)
                                else
                                  (let (finished, s3) = write_bytes io outputFile body s2
                                   in if finished then
                                        audio_result (''/audio/'' @ hash @ ''.mp3'') outputFile s3
                                      else (Rejected (Error ''write stream error''), s3))))))"

text \<open>
  \<^verbatim>\<open>audioPathInResponse.split('.').reduce((obj, key) => obj?.[key], json)\<close>: the walk
  along the configured response path. An own property of a parsed object is followed;
  \<^verbatim>\<open>null\<close> gives \<^verbatim>\<open>undefined\<close>, and so does everything after it; the rest is the
  library's (\<open>builtin_walk\<close>).
\<close>

fun walk :: "lib \<Rightarrow> json \<Rightarrow> string list \<Rightarrow> member" where
  "walk lib v [] = Val v"
| "walk lib JNull (k # ks) = Undefined"
| "walk lib (JObj kvs) (k # ks) =
     (case map_of kvs k of
        Some v \<Rightarrow> walk lib v ks
      | None \<Rightarrow> builtin_walk lib (JObj kvs) (k # ks))"
| "walk lib v (k # ks) = builtin_walk lib v (k # ks)"

fun truthy_member :: "member \<Rightarrow> bool" where
  "truthy_member Undefined = False"
| "truthy_member (Val v) = truthy (Some v)"
| "truthy_member Native = True"

text \<open>The request body of the generic adapter:
  \<^verbatim>\<open>JSON.stringify(JSON.parse(bodyTemplate.replace('{text}', JSON.stringify(text))))\<close>
  when a template is configured, \<^verbatim>\<open>null\<close> otherwise. It runs in the body of the
  \<^verbatim>\<open>async\<close> function, so what it throws rejects the call.\<close>

definition generic_body :: "lib \<Rightarrow> json \<Rightarrow> string \<Rightarrow> js_error + string option" where
  "generic_body lib bodyTemplate text =
     (if truthy (Some bodyTemplate) then
        (case bodyTemplate of
           JStr template \<Rightarrow>
             (case json_parse lib
                     (replace_first ''{text}'' (json_stringify lib (JStr text)) template) of
                None \<Rightarrow> Inl (SyntaxError ''Unexpected token in JSON'')
              | Some j \<Rightarrow> Inr (Some (json_stringify lib j)))
         | _ \<Rightarrow> Inl (TypeError ''bodyTemplate.replace is not a function''))
      else Inr None)"

text \<open>What the \<^verbatim>\<open>'end'\<close> callback does with a JSON response: everything in it,
  the write included, sits in a \<^verbatim>\<open>try\<close> whose \<^verbatim>\<open>catch\<close> rejects.\<close>

definition generic_json_response ::
  "lib \<Rightarrow> io \<Rightarrow> json \<Rightarrow> string \<Rightarrow> string \<Rightarrow> bytes \<Rightarrow> sys \<Rightarrow> synth_result promise \<times> sys"
where
  "generic_json_response lib io audioPathInResponse audio outputFile buffer s =
     (case json_parse lib (utf8_string lib buffer) of
        None \<Rightarrow> (Rejected (Error ''Failed to parse JSON response''), s)
      | Some j \<Rightarrow>
          (case audioPathInResponse of
             JStr audioPath \<Rightarrow>
               (let audioData = walk lib j (split_on (CHR ''.'') audioPath)
                in if truthy_member audioData then
                     (case buffer_from lib audioData of
                        Inl e \<Rightarrow> (Rejected (Error ''Failed to parse JSON response''), s)
                      | Inr audioBuffer \<Rightarrow>
                          (let (ok, s1) = write_bytes io outputFile audioBuffer s
                           in if ok then audio_result audio outputFile s1
                              else (Rejected (Error ''Failed to parse JSON response''), s1)))
                   else (Rejected (Error ''Audio data not found in response''), s))
           | _ \<Rightarrow> (Rejected (Error ''Failed to parse JSON response''), s)))"

definition generic_synthesize ::
  "lib \<Rightarrow> io \<Rightarrow> json \<Rightarrow> json \<Rightarrow> json \<Rightarrow> json \<Rightarrow> json \<Rightarrow> json \<Rightarrow> string \<Rightarrow> string \<Rightarrow> sys
   \<Rightarrow> synth_result promise \<times> sys"
where
  "generic_synthesize lib io u method headers bodyTemplate audioPathInResponse audioFormat
       text outputDir s =
     (case to_str (number_to_string lib) u of
        None \<Rightarrow> (Rejected conversion_error, s)
      | Some urlString \<Rightarrow>
          (case to_str (number_to_string lib) audioFormat of
             None \<Rightarrow> (Rejected conversion_error, s)
           | Some format \<Rightarrow>
               (let hash = md5_hex lib (text @ urlString);
                    outputFile = path_join outputDir (hash @ ''.'' @ format);
                    audio = ''/audio/'' @ hash @ ''.'' @ format;
                    (cached, s1) = existsSync outputFile s
                in if cached then audio_result audio outputFile s1
                   else
                     (case parse_url lib urlString of
                        None \<Rightarrow> (Rejected (TypeError ''Invalid URL''), s1)
                      | Some parsedUrl \<Rightarrow>
                          (case generic_body lib bodyTemplate text of
                             Inl e \<Rightarrow> (Rejected e, s1)
                           | Inr postData \<Rightarrow>
                               (let options =
                                      \<lparr>req_secure = (url_protocol parsedUrl = ''https:''),
                                       req_hostname = url_hostname parsedUrl,
                                       req_port = url_port parsedUrl,
                                       req_path = url_pathname parsedUrl @ url_search parsedUrl,
                                       req_method = method,
                                       req_headers =
                                         (case postData of
                                            Some d \<Rightarrow> set_prop ''Content-Length''
                                                       (JNum (of_nat (byte_length lib d))) headers
                                          | None \<Rightarrow> headers),
                                       req_body = postData\<rparr>;
                                    (out, s2) = http_send io options s1
                                in case out of
                                     RequestError e \<Rightarrow> (Rejected (Error e), s2)
                                   | Response statusCode contentType buffer \<Rightarrow>
                                       if str_includes contentType ''application/json'' then
                                         generic_json_response lib io audioPathInResponse audio
                                           outputFile buffer s2
                                       else
                                         (let (ok, s3) = write_bytes io outputFile buffer s2
                                          in if ok then audio_result audio outputFile s3
                                             else (Unsettled (Error ''write failed''), s3))))))))"

definition createOpenAITTS :: "io \<Rightarrow> json \<Rightarrow> sys \<Rightarrow> adapter \<times> sys" where
  "createOpenAITTS io config s =
     (let apiKey = js_or (get_prop (Some config) ''apiKey'') (getenv io ''OPENAI_API_KEY'');
          model = or_else (get_prop (Some config) ''model'') (JStr ''tts-1'');
          voice = or_else (get_prop (Some config) ''voice'') (JStr ''alloy'')
      in if \<not> truthy apiKey then
           (DummyTTS, emit (ConsoleWarn ''OpenAI API key not found. Set OPENAI_API_KEY environment variable or tts.openai.apiKey in config.'') s)
         else (OpenAITTS (or_else apiKey JNull) model voice, s))"

definition createGoogleTTS :: "io \<Rightarrow> json \<Rightarrow> sys \<Rightarrow> adapter \<times> sys" where
  "createGoogleTTS io config s =
     (let apiKey = js_or (get_prop (Some config) ''apiKey'') (getenv io ''GOOGLE_API_KEY'');
          languageCode = or_else (get_prop (Some config) ''languageCode'') (JStr ''en-US'');
          voiceName = or_else (get_prop (Some config) ''voiceName'') JNull;
          ssmlGender = or_else (get_prop (Some config) ''ssmlGender'') (JStr ''NEUTRAL'')
      in if \<not> truthy apiKey then
           (DummyTTS, emit (ConsoleWarn ''Google API key not found. Set GOOGLE_API_KEY environment variable or tts.google.apiKey in config.'') s)
         else (GoogleTTS (or_else apiKey JNull) languageCode voiceName ssmlGender, s))"

definition createAzureTTS :: "io \<Rightarrow> json \<Rightarrow> sys \<Rightarrow> adapter \<times> sys" where
  "createAzureTTS io config s =
     (let subscriptionKey = js_or (get_prop (Some config) ''subscriptionKey'')
                                  (getenv io ''AZURE_SPEECH_KEY'');
          region = or_else (js_or (get_prop (Some config) ''region'')
                                  (getenv io ''AZURE_SPEECH_REGION'')) (JStr ''eastus'');
          voice = or_else (get_prop (Some config) ''voice'') (JStr ''en-US-JennyNeural'')
      in if \<not> truthy subscriptionKey then
           (DummyTTS, emit (ConsoleWarn ''Azure Speech key not found. Set AZURE_SPEECH_KEY environment variable or tts.azure.subscriptionKey in config.'') s)
         else (AzureTTS (or_else subscriptionKey JNull) region voice, s))"

definition createGenericAPITTS :: "json \<Rightarrow> sys \<Rightarrow> adapter \<times> sys" where
  "createGenericAPITTS config s =
     (let u = get_prop (Some config) ''url'';
          method = or_else (get_prop (Some config) ''method'') (JStr ''POST'');
          headers = or_else (get_prop (Some config) ''headers'') (JObj []);
          bodyTemplate = or_else (get_prop (Some config) ''body'') JNull;
          audioPathInResponse = or_else (get_prop (Some config) ''audioPath'') (JStr ''audio'');
          audioFormat = or_else (get_prop (Some config) ''outputFormat'') (JStr ''mp3'')
      in if \<not> truthy u then
           (DummyTTS, emit (ConsoleWarn ''Generic API TTS: url not configured'') s)
         else (GenericAPITTS (or_else u JNull) method headers bodyTemplate
                             audioPathInResponse audioFormat, s))"

subsection \<open>User-defined command: createCustomTTS (tts/index.js)\<close>

text \<open>
  tts/index.js binds, at module level, the six imported constructors (lines 5 to 12) and
  its four function declarations; \<^verbatim>\<open>createCustomTTS\<close> adds its parameter and
  \<^verbatim>\<open>execSync\<close> (line 51), \<^verbatim>\<open>synthesize\<close> its parameters and locals. Node wraps a
  module in a function with five parameters. Everything else is looked up among the
  globals, of which the list gives those of Node and the standard objects this
  repository uses. The module has no \<^verbatim>\<open>require('path')\<close>, unlike tts/piper.js,
  tts/voicevox.js and tts/api.js, and \<^verbatim>\<open>path\<close> is not a global.
\<close>

definition index_js_bindings :: "string list" where
  "index_js_bindings =
     [''createPiperTTS'', ''createVoicevoxTTS'', ''createOpenAITTS'', ''createGoogleTTS'',
      ''createAzureTTS'', ''createGenericAPITTS'',
      ''createTTSEngine'', ''createCustomTTS'', ''createDummyTTS'', ''estimateDuration'',
      ''config'', ''execSync'',
      ''text'', ''outputDir'', ''hash'', ''outputFile'', ''cmd'']"

definition module_wrapper_bindings :: "string list" where
  "module_wrapper_bindings = [''exports'', ''require'', ''module'', ''__filename'', ''__dirname'']"

definition node_globals :: "string list" where
  "node_globals =
     [''globalThis'', ''global'', ''console'', ''process'', ''Buffer'', ''URL'',
      ''URLSearchParams'', ''setTimeout'', ''setInterval'', ''setImmediate'', ''clearTimeout'',
      ''clearInterval'', ''clearImmediate'', ''queueMicrotask'', ''fetch'',
      ''Object'', ''Array'', ''String'', ''Number'', ''Boolean'', ''JSON'', ''Math'', ''Date'',
      ''Promise'', ''Error'', ''Set'', ''Map'', ''encodeURIComponent'', ''parseFloat'']"

definition index_js_bound :: "string \<Rightarrow> bool" where
  "index_js_bound name =
     (name \<in> set (index_js_bindings @ module_wrapper_bindings @ node_globals))"

definition custom_synthesize ::
  "lib \<Rightarrow> io \<Rightarrow> json \<Rightarrow> string \<Rightarrow> string \<Rightarrow> sys \<Rightarrow> synth_result promise \<times> sys"
where
  "custom_synthesize lib io config text outputDir s =
     (let hash = md5_hex lib text
      in if \<not> index_js_bound ''path'' then
           (Rejected (ReferenceError ''path is not defined''), s)
         else
           (let outputFile = path_join outputDir (hash @ ''.wav'')
            in case get_prop (Some config) ''command'' of
                 Some (JStr command) \<Rightarrow>
                   (let cmd = replace_first ''{output}'' outputFile
                                (replace_first ''{text}'' ([dquote] @ text @ [dquote]) command);
                        (ok, s1) = execSync io cmd s
                    in if ok then
                         (Resolved \<lparr>audioUrl = Some (''/audio/'' @ hash @ ''.wav''),
                                    duration = estimateDuration text\<rparr>, s1)
                       else (Rejected (Error ''Command failed''), s1))
               | _ \<Rightarrow> (Rejected (TypeError ''config.command.replace is not a function''), s)))"

definition createCustomTTS :: "json \<Rightarrow> adapter" where
  "createCustomTTS config =
     (if \<not> truthy (get_prop (Some config) ''command'') then DummyTTS else CustomTTS config)"

subsection \<open>The uniform call\<close>

fun synthesize ::
  "lib \<Rightarrow> io \<Rightarrow> adapter \<Rightarrow> string \<Rightarrow> string \<Rightarrow> sys \<Rightarrow> synth_result promise \<times> sys"
where
  "synthesize lib io DummyTTS text outputDir s = dummy_synthesize text s"
| "synthesize lib io (PiperTTS command model available) text outputDir s =
     piper_synthesize lib io command model available text outputDir s"
| "synthesize lib io (VoicevoxTTS baseUrl speaker pitchScale speedScale intonationScale)
       text outputDir s =
     voicevox_synthesize lib io baseUrl speaker pitchScale speedScale intonationScale
       text outputDir s"
| "synthesize lib io (OpenAITTS apiKey model voice) text outputDir s =
     openai_synthesize lib io apiKey model voice text outputDir s"
| "synthesize lib io (GoogleTTS apiKey languageCode voiceName ssmlGender) text outputDir s =
     google_synthesize lib io apiKey languageCode voiceName ssmlGender text outputDir s"
| "synthesize lib io (AzureTTS subscriptionKey region voice) text outputDir s =
     azure_synthesize lib io subscriptionKey region voice text outputDir s"
| "synthesize lib io (GenericAPITTS u method headers bodyTemplate audioPathInResponse audioFormat)
       text outputDir s =
     generic_synthesize lib io u method headers bodyTemplate audioPathInResponse audioFormat
       text outputDir s"
| "synthesize lib io (CustomTTS config) text outputDir s =
     custom_synthesize lib io config text outputDir s"

section \<open>Engine factory: createTTSEngine (tts/index.js)\<close>

text \<open>
  \<^verbatim>\<open>
  const engine = config?.engine || 'none';
  switch (engine) {
    case 'piper': return createPiperTTS(config?.piper || {});
    ...
    case 'none':  return createDummyTTS();
    default:
      console.warn(`Unknown TTS engine: ${engine}, using none`);
      return createDummyTTS();
  }
  \<close>
  The configuration is any JSON value or \<^verbatim>\<open>undefined\<close>; \<^verbatim>\<open>switch\<close> compares with
  \<^verbatim>\<open>===\<close>, so only a string matches a case. The constructors do not throw. The
  template literal of the default branch does when the tag cannot be converted to a
  string, and nothing catches it: the factory then throws (\<open>Inl\<close>).
\<close>

definition createTTSEngine ::
  "lib \<Rightarrow> io \<Rightarrow> json option \<Rightarrow> sys \<Rightarrow> js_error + adapter \<times> sys"
where
  "createTTSEngine lib io config s =
     (let engine = or_else (get_prop config ''engine'') (JStr ''none'')
      in if engine = JStr ''piper'' then
           Inr (createPiperTTS lib io (or_else (get_prop config ''piper'') (JObj [])) s)
         else if engine = JStr ''voicevox'' then
           Inr (createVoicevoxTTS (or_else (get_prop config ''voicevox'') (JObj [])), s)
         else if engine = JStr ''openai'' then
           Inr (createOpenAITTS io (or_else (get_prop config ''openai'') (JObj [])) s)
         else if engine = JStr ''google'' then
           Inr (createGoogleTTS io (or_else (get_prop config ''google'') (JObj [])) s)
         else if engine = JStr ''azure'' then
           Inr (createAzureTTS io (or_else (get_prop config ''azure'') (JObj [])) s)
         else if engine = JStr ''api'' then
           Inr (createGenericAPITTS (or_else (get_prop config ''api'') (JObj [])) s)
         else if engine = JStr ''custom'' then
           Inr (createCustomTTS (or_else (get_prop config ''custom'') (JObj [])), s)
         else if engine = JStr ''none'' then Inr (DummyTTS, s)
         else
           (case to_str (number_to_string lib) engine of
              None \<Rightarrow> Inl conversion_error
            | Some tag \<Rightarrow>
                Inr (DummyTTS,
                     emit (ConsoleWarn (''Unknown TTS engine: '' @ tag @ '', using none'')) s)))"

text \<open>The tags the \<^verbatim>\<open>switch\<close> has a case for.\<close>

definition known_engines :: "string list" where
  "known_engines =
     [''piper'', ''voicevox'', ''openai'', ''google'', ''azure'', ''api'', ''custom'', ''none'']"

definition warnings :: "sys \<Rightarrow> string list" where
  "warnings s = concat (map (\<lambda>e. case e of ConsoleWarn m \<Rightarrow> [m] | _ \<Rightarrow> []) (events s))"

section \<open>The call sites: POST /api/speak and POST /api/tts (server.js)\<close>


record reply =
  reply_status :: nat
  reply_json :: "(string \<times> json) list"

datatype answer = Replied reply | Unanswered | Thrown js_error








section \<open>Vocabulary of the claims\<close>

text \<open>
  The canonical cache entry of an adapter for a text: the file name each
  \<^verbatim>\<open>synthesize\<close> computes in its first two lines (the hex digest of the text,
  followed by the voice-affecting settings where the adapter appends them, and the
  extension), the path under the output directory and the URL it is served at.
  It takes neither the world nor the state: nothing time-dependent enters the key.
  There is no name when a setting that enters it cannot be converted to a string.
\<close>

fun cache_name :: "lib \<Rightarrow> adapter \<Rightarrow> string \<Rightarrow> string option" where
  "cache_name lib DummyTTS t = None"
| "cache_name lib (PiperTTS command model available) t = Some (md5_hex lib t @ ''.wav'')"
| "cache_name lib (VoicevoxTTS baseUrl speaker pitchScale speedScale intonationScale) t =
     Some (md5_hex lib t @ ''.wav'')"
| "cache_name lib (OpenAITTS apiKey model voice) t =
     map_option (\<lambda>v. md5_hex lib (t @ v) @ ''.mp3'') (to_str (number_to_string lib) voice)"
| "cache_name lib (GoogleTTS apiKey languageCode voiceName ssmlGender) t =
     (case to_str (number_to_string lib) languageCode of
        None \<Rightarrow> None
      | Some lc \<Rightarrow>
          map_option (\<lambda>vn. md5_hex lib (t @ lc @ vn) @ ''.mp3'')
            (to_str (number_to_string lib) (or_else (Some voiceName) (JStr []))))"
| "cache_name lib (AzureTTS subscriptionKey region voice) t =
     map_option (\<lambda>v. md5_hex lib (t @ v) @ ''.mp3'') (to_str (number_to_string lib) voice)"
| "cache_name lib (GenericAPITTS u method headers bodyTemplate audioPathInResponse audioFormat) t =
     (case to_str (number_to_string lib) u of
        None \<Rightarrow> None
      | Some urlString \<Rightarrow>
          map_option (\<lambda>format. md5_hex lib (t @ urlString) @ ''.'' @ format)
            (to_str (number_to_string lib) audioFormat))"
| "cache_name lib (CustomTTS config) t = Some (md5_hex lib t @ ''.wav'')"

definition cache_file :: "lib \<Rightarrow> adapter \<Rightarrow> string \<Rightarrow> string \<Rightarrow> string option" where
  "cache_file lib a t dir = map_option (path_join dir) (cache_name lib a t)"

definition cache_url :: "lib \<Rightarrow> adapter \<Rightarrow> string \<Rightarrow> string option" where
  "cache_url lib a t = map_option (\<lambda>n. ''/audio/'' @ n) (cache_name lib a t)"

text \<open>The network requests and process invocations performed so far, and the paths
  opened for writing so far.\<close>

definition invocations :: "sys \<Rightarrow> event list" where
  "invocations s =
     filter (\<lambda>e. case e of HttpRequest r \<Rightarrow> True | ExecSync c \<Rightarrow> True | _ \<Rightarrow> False) (events s)"

definition writes :: "sys \<Rightarrow> string list" where
  "writes s = concat (map (\<lambda>e. case e of FsWrite p \<Rightarrow> [p] | _ \<Rightarrow> []) (events s))"

text \<open>The adapters of tts/api.js, which take the duration from the file; the two local
  engines; the one adapter whose audio file is written by a process it starts.\<close>

fun hosted :: "adapter \<Rightarrow> bool" where
  "hosted (OpenAITTS apiKey model voice) = True"
| "hosted (GoogleTTS apiKey languageCode voiceName ssmlGender) = True"
| "hosted (AzureTTS subscriptionKey region voice) = True"
| "hosted (GenericAPITTS u method headers bodyTemplate audioPathInResponse audioFormat) = True"
| "hosted a = False"

fun local_engine :: "adapter \<Rightarrow> bool" where
  "local_engine (PiperTTS command model available) = True"
| "local_engine (VoicevoxTTS baseUrl speaker pitchScale speedScale intonationScale) = True"
| "local_engine a = False"

fun is_piper :: "adapter \<Rightarrow> bool" where
  "is_piper (PiperTTS command model available) = True"
| "is_piper a = False"



text \<open>A directory path in normal form with at least one segment (as \<^verbatim>\<open>path.join\<close>
  returns it for the server's audio directory), and a plain file name: one that is a
  single path segment.\<close>

definition plain_segment :: "string \<Rightarrow> bool" where
  "plain_segment n = (n \<noteq> [] \<and> n \<noteq> ''.'' \<and> n \<noteq> ''..'' \<and> CHR ''/'' \<notin> set n)"

definition clean_dir :: "string \<Rightarrow> bool" where
  "clean_dir dir =
     (case split_on (CHR ''/'') dir of
        [] \<Rightarrow> False
      | first # segs \<Rightarrow>
          if first = [] then segs \<noteq> [] \<and> list_all plain_segment segs
          else list_all plain_segment (first # segs))"


text \<open>
  How one call of a hosted adapter relates the state before to the promise and the state
  after: a cache hit changes no file and invokes nothing; a miss that resolves has written
  the cache file, once; a miss that does not resolve has written nothing or the cache file.
\<close>

definition outcome_ok ::
  "string \<Rightarrow> string \<Rightarrow> sys \<Rightarrow> synth_result promise \<Rightarrow> sys \<Rightarrow> bool" where
  "outcome_ok p url s pr s' =
     (case files s p of
        Some old \<Rightarrow>
          pr = Resolved \<lparr>audioUrl = Some url, duration = duration_of_size (length old)\<rparr>
          \<and> files s' = files s \<and> invocations s' = invocations s \<and> writes s' = writes s
      | None \<Rightarrow>
          (case pr of
             Resolved r \<Rightarrow>
               (\<exists>bs. r = \<lparr>audioUrl = Some url, duration = duration_of_size (length bs)\<rparr>
                     \<and> files s' = (files s)(p \<mapsto> bs) \<and> writes s' = writes s @ [p])
           | _ \<Rightarrow>
               (files s' = files s \<and> writes s' = writes s)
               \<or> (\<exists>bs. files s' = (files s)(p \<mapsto> bs) \<and> writes s' = writes s @ [p])))"

text \<open>The same for a local engine, which always resolves and takes the duration from
  the text.\<close>

definition local_outcome ::
  "string \<Rightarrow> string \<Rightarrow> rat \<Rightarrow> sys \<Rightarrow> synth_result promise \<Rightarrow> sys \<Rightarrow> bool" where
  "local_outcome p url est s pr s' =
     (case files s p of
        Some old \<Rightarrow>
          pr = Resolved \<lparr>audioUrl = Some url, duration = est\<rparr>
          \<and> files s' = files s \<and> invocations s' = invocations s \<and> writes s' = writes s
      | None \<Rightarrow>
          (pr = Resolved \<lparr>audioUrl = Some url, duration = est\<rparr> \<and> files s' p \<noteq> None)
          \<or> pr = Resolved \<lparr>audioUrl = None, duration = est\<rparr>)"

section \<open>Concrete runs\<close>

text \<open>
  A small world for running the model on concrete inputs. The digest keeps the lower-case
  letters of its input (the claims use only that the digest is a function of its input);
  the numbers 0 and 1 print as in JavaScript (no run prints another); no body parses as
  JSON; every URL is that of the local server. The transport gives one fixed answer, the
  disk one fixed fault, every file can be opened, and a command either fails or writes
  the given file.
\<close>

definition test_lib :: lib where
  "test_lib =
     \<lparr>md5_hex = filter (\<lambda>c. c \<in> set ''abcdefghijklmnopqrstuvwxyz''),
      number_to_string = (\<lambda>n. if n = 1 then ''1'' else ''0''),
      json_parse = (\<lambda>t. None),
      json_stringify = (\<lambda>j. ''{}''),
      parse_url = (\<lambda>u. Some \<lparr>url_protocol = ''http:'', url_hostname = ''localhost'',
                              url_port = ''50021'', url_pathname = ''/'', url_search = []\<rparr>),
      base64_decode = (\<lambda>t. []),
      buffer_from_object = (\<lambda>j. None),
      builtin_walk = (\<lambda>j ks. Undefined),
      utf8_string = (\<lambda>bs. []),
      byte_length = length,
      encodeURIComponent = (\<lambda>t. Some t)\<rparr>"

definition test_io :: "http_outcome \<Rightarrow> nat option \<Rightarrow> (string \<times> bytes) option \<Rightarrow> io" where
  "test_io answer fault made =
     \<lparr>http_transport = (\<lambda>r. answer),
      run_command = (\<lambda>cmd fs. case made of None \<Rightarrow> (False, fs)
                                 | Some (p, bs) \<Rightarrow> (True, fs(p \<mapsto> bs))),
      disk_fault = (\<lambda>p. fault),
      open_fails = (\<lambda>p. False),
      process_env = Map.empty,
      date_now = 0\<rparr>"

definition empty_sys :: sys where
  "empty_sys = \<lparr>files = Map.empty, events = []\<rparr>"

definition offline :: io where
  "offline = test_io (RequestError ''ECONNREFUSED'') None None"

definition openai_demo :: adapter where
  "openai_demo = OpenAITTS (JStr ''sk'') (JStr ''tts-1'') (JStr ''alloy'')"

definition google_demo :: adapter where
  "google_demo = GoogleTTS (JStr ''key'') (JStr ''en-US'') JNull (JStr ''NEUTRAL'')"

definition generic_demo :: adapter where
  "generic_demo =
     GenericAPITTS (JStr ''http://tts'') (JStr ''POST'') (JObj []) JNull (JStr ''audio'')
       (JStr ''mp3'')"

definition piper_demo :: adapter where
  "piper_demo = PiperTTS (JStr ''piper'') (JStr ''ja_JP-test-medium'') True"

definition voicevox_demo :: adapter where
  "voicevox_demo = createVoicevoxTTS (JObj [])"

definition custom_demo :: json where
  "custom_demo = JObj [(''command'', JStr ''say {text} -o {output}'')]"

text \<open>A hosted call that succeeds, from an empty cache: 32000 bytes of audio.\<close>

definition served :: io where
  "served = test_io (Response 200 [] (replicate 32000 0)) None None"

definition first_call :: "synth_result promise \<times> sys" where
  "first_call = synthesize test_lib served openai_demo ''hi'' ''public/audio'' empty_sys"

text \<open>The same call receiving 8008 bytes.\<close>

definition odd_size_call :: "synth_result promise \<times> sys" where
  "odd_size_call =
     synthesize test_lib (test_io (Response 200 [] (replicate 8008 0)) None None) openai_demo
       ''hi'' ''public/audio'' empty_sys"

text \<open>Two calls of the VOICEVOX adapter while its server is down.\<close>

definition offline_first :: "synth_result promise \<times> sys" where
  "offline_first = synthesize test_lib offline voicevox_demo ''hi'' ''public/audio'' empty_sys"

definition offline_second :: "synth_result promise \<times> sys" where
  "offline_second =
     synthesize test_lib offline voicevox_demo ''hi'' ''public/audio'' (snd offline_first)"

text \<open>A hosted call whose write fails after two of four bytes, and the call after it.\<close>

definition torn_first :: "synth_result promise \<times> sys" where
  "torn_first =
     synthesize test_lib (test_io (Response 200 [] [1, 2, 3, 4]) (Some 2) None) openai_demo
       ''hi'' ''public/audio'' empty_sys"

definition torn_second :: "synth_result promise \<times> sys" where
  "torn_second =
     synthesize test_lib offline openai_demo ''hi'' ''public/audio'' (snd torn_first)"

text \<open>Piper writing a 32000-byte file for a two-character text.\<close>

definition piper_run :: "synth_result promise \<times> sys" where
  "piper_run =
     synthesize test_lib
       (test_io (RequestError []) None (Some (''public/audio/hi.wav'', replicate 32000 0)))
       piper_demo ''hi'' ''public/audio'' empty_sys"

text \<open>The generic adapter configured with an output format that holds path segments.\<close>

definition escaping_demo :: adapter where
  "escaping_demo =
     GenericAPITTS (JStr ''http://tts'') (JStr ''POST'') (JObj []) JNull (JStr ''audio'')
       (JStr ''x/../../../outside.mp3'')"

definition escaping_run :: "synth_result promise \<times> sys" where
  "escaping_run =
     synthesize test_lib (test_io (Response 200 ''audio/mpeg'' [1, 2, 3, 4]) None None)
       escaping_demo ''hi'' ''/srv/public/audio'' empty_sys"

text \<open>A configuration whose engine tag cannot be converted to a string, and a request
  whose client id names a member of \<^verbatim>\<open>Object.prototype\<close>.\<close>

definition unprintable_config :: json where
  "unprintable_config = JObj [(''engine'', JObj [(''toString'', JNum 1)])]"


section \<open>Facts about the primitives\<close>


lemma floor_rat_numeral:
  "\<lfloor>(numeral a :: rat) / numeral b\<rfloor> = numeral a div numeral b"
  using floor_divide_of_int_eq [of "numeral a" "numeral b", where ?'a = rat] by simp

lemma floor_rat_one_numeral:
  "\<lfloor>(1 :: rat) / numeral b\<rfloor> = 1 div numeral b"
  using floor_divide_of_int_eq [of 1 "numeral b", where ?'a = rat] by simp

lemma math_round_round: "math_round x = of_int (round x)"
  by (simp add: math_round_def round_def)

lemma math_round_max_500: "math_round (max 500 x) = max 500 (math_round x)"
proof (cases "x \<le> 500")
  case True
  then have "round x \<le> round (500 :: rat)" by (rule round_mono)
  then have "math_round x \<le> 500" by (simp add: math_round_round)
  with True show ?thesis by (simp add: max_def math_round_round)
next
  case False
  then have "round (500 :: rat) \<le> round x" by (intro round_mono) simp
  then have "500 \<le> math_round x" by (simp add: math_round_round)
  with False show ?thesis by (simp add: max_def)
qed

lemma spec_is_rounded: "spec_estimate t = math_round (estimateDuration t)"
proof -
  have "(1000 * of_nat (length t) / 12 :: rat) = of_nat (length t) / 12 * 1000" by simp
  then show ?thesis
    by (simp only: spec_estimate_def estimateDuration_def charsPerSecond_def math_round_max_500)
qed

lemma spec_close: "\<bar>spec_estimate t - estimateDuration t\<bar> \<le> 1 / 2"
  unfolding spec_is_rounded math_round_round by (rule of_int_round_abs_le)

subsection \<open>Doubles\<close>






text \<open>The rules that evaluate \<open>double_of\<close> at a numeral.\<close>

lemmas double_eval = double_of_def binary_exponent_def round_half_even_def
  pow2_def compute_floorlog floor_rat_numeral floor_rat_one_numeral Let_def

lemma duration_of_size_0: "duration_of_size 0 = 0"
  by (simp add: duration_of_size_def double_of_def math_round_def floor_rat_one_numeral)

lemma duration_of_size_2: "duration_of_size 2 = 0"
proof -
  have a: "double_of (of_nat 2 / 16000) = 1152921504606847 / 9223372036854775808"
    by (simp add: double_eval)
  have b: "double_of (1152921504606847 / 9223372036854775808 * 1000) = 1 / 8"
    by (simp add: double_eval)
  show ?thesis
    by (simp only: duration_of_size_def a b)
       (simp add: math_round_def floor_rat_numeral floor_rat_one_numeral)
qed

lemma duration_of_size_4: "duration_of_size 4 = 0"
proof -
  have a: "double_of (of_nat 4 / 16000) = 1152921504606847 / 4611686018427387904"
    by (simp add: double_eval)
  have b: "double_of (1152921504606847 / 4611686018427387904 * 1000) = 1 / 4"
    by (simp add: double_eval)
  show ?thesis
    by (simp only: duration_of_size_def a b)
       (simp add: math_round_def floor_rat_numeral floor_rat_one_numeral)
qed

lemma duration_of_size_8008: "duration_of_size 8008 = 500"
proof -
  have a: "double_of (of_nat 8008 / 16000) = 2254051613498933 / 4503599627370496"
    by (simp add: double_eval)
  have b: "double_of (2254051613498933 / 4503599627370496 * 1000)
           = 8804889115230207 / 17592186044416"
    by (simp add: double_eval)
  show ?thesis
    by (simp only: duration_of_size_def a b)
       (simp add: math_round_def floor_rat_numeral floor_rat_one_numeral)
qed

lemma duration_of_size_32000: "duration_of_size 32000 = 2000"
proof -
  have a: "double_of (of_nat 32000 / 16000) = 2"
    by (simp add: double_eval)
  have b: "double_of (2 * 1000) = 2000"
    by (simp add: double_eval)
  show ?thesis
    by (simp only: duration_of_size_def a b)
       (simp add: math_round_def floor_rat_numeral floor_rat_one_numeral)
qed

lemma duration_of_size_Suc2: "duration_of_size (Suc (Suc 0)) = 0"
  using duration_of_size_2 by (simp add: eval_nat_numeral)

lemma duration_of_size_Suc4: "duration_of_size (Suc (Suc (Suc (Suc 0)))) = 0"
  using duration_of_size_4 by (simp add: eval_nat_numeral)

lemmas size_eval = duration_of_size_0 duration_of_size_2 duration_of_size_4
  duration_of_size_8008 duration_of_size_32000 duration_of_size_Suc2 duration_of_size_Suc4

subsection \<open>Values and state\<close>

lemma or_else_falsy: "\<not> truthy v \<Longrightarrow> or_else v d = d"
  by (cases v) (simp_all add: or_else_def)

lemma or_else_truthy: "truthy (Some e) \<Longrightarrow> or_else (Some e) d = e"
  by (simp add: or_else_def)

lemma files_emit [simp]: "files (emit e s) = files s"
  by (simp add: emit_def)

lemma invocations_emit [simp]:
  "invocations (emit (ConsoleLog m) s) = invocations s"
  "invocations (emit (ConsoleWarn m) s) = invocations s"
  "invocations (emit (ConsoleError m) s) = invocations s"
  "invocations (emit (FsExists p) s) = invocations s"
  "invocations (emit (FsStat p) s) = invocations s"
  "invocations (emit (FsWrite p) s) = invocations s"
  "invocations (emit (HttpRequest r) s) = invocations s @ [HttpRequest r]"
  "invocations (emit (ExecSync c) s) = invocations s @ [ExecSync c]"
  by (simp_all add: emit_def invocations_def)

lemma writes_emit [simp]:
  "writes (emit (ConsoleLog m) s) = writes s"
  "writes (emit (ConsoleWarn m) s) = writes s"
  "writes (emit (ConsoleError m) s) = writes s"
  "writes (emit (FsExists p) s) = writes s"
  "writes (emit (FsStat p) s) = writes s"
  "writes (emit (FsWrite p) s) = writes s @ [p]"
  "writes (emit (HttpRequest r) s) = writes s"
  "writes (emit (ExecSync c) s) = writes s"
  by (simp_all add: emit_def writes_def)

lemma files_update_proj [simp]:
  "invocations (s\<lparr>files := f\<rparr>) = invocations s"
  "writes (s\<lparr>files := f\<rparr>) = writes s"
  by (simp_all add: invocations_def writes_def)

lemma audio_result_hit:
  assumes "files s p = Some bs"
  shows "audio_result url p s =
           (Resolved \<lparr>audioUrl = Some url, duration = duration_of_size (length bs)\<rparr>,
            emit (FsStat p) (emit (FsExists p) s))"
  using assms
  by (simp add: audio_result_def getAudioDuration_def existsSync_def statSync_size_def)

lemma write_bytes_effect:
  "write_bytes io p bs s =
     (if open_fails io p then (False, s)
      else ((case disk_fault io p of None \<Rightarrow> bs | Some k \<Rightarrow> take k bs) = bs,
            emit (FsWrite p)
              (s\<lparr>files := (files s)(p \<mapsto>
                     (case disk_fault io p of None \<Rightarrow> bs | Some k \<Rightarrow> take k bs))\<rparr>)))"
  by (simp add: write_bytes_def Let_def)

lemma execSync_effect:
  "execSync io cmd s =
     (fst (run_command io cmd (files s)),
      emit (ExecSync cmd) (s\<lparr>files := snd (run_command io cmd (files s))\<rparr>))"
  by (simp add: execSync_def split_beta)

lemma httpPost_files:
  "httpPost lib io u d s = (r, s') \<Longrightarrow> files s' = files s \<and> writes s' = writes s"
  by (auto simp: httpPost_def Let_def http_send_def
      split: option.splits http_outcome.splits)

lemma httpPostBinary_files:
  "httpPostBinary lib io u d s = (r, s') \<Longrightarrow> files s' = files s \<and> writes s' = writes s"
  by (auto simp: httpPostBinary_def Let_def http_send_def
      split: option.splits http_outcome.splits)

section \<open>One call of each adapter\<close>

lemma openai_outcome:
  assumes "openai_synthesize lib io k m v t dir s = (pr, s')"
    and "to_str (number_to_string lib) v = Some vs"
  shows "outcome_ok (path_join dir (md5_hex lib (t @ vs) @ ''.mp3''))
           (''/audio/'' @ md5_hex lib (t @ vs) @ ''.mp3'') s pr s'"
proof (cases "files s (path_join dir (md5_hex lib (t @ vs) @ ''.mp3''))")
  case (Some old)
  then show ?thesis using assms
    by (auto simp: openai_synthesize_def Let_def existsSync_def audio_result_hit outcome_ok_def)
next
  case None
  then show ?thesis using assms
    by (auto simp: openai_synthesize_def Let_def existsSync_def
        http_send_def write_bytes_effect audio_result_hit outcome_ok_def
        split: http_outcome.splits if_splits option.splits)
qed

lemma azure_outcome:
  assumes "azure_synthesize lib io k rg v t dir s = (pr, s')"
    and "to_str (number_to_string lib) v = Some vs"
  shows "outcome_ok (path_join dir (md5_hex lib (t @ vs) @ ''.mp3''))
           (''/audio/'' @ md5_hex lib (t @ vs) @ ''.mp3'') s pr s'"
proof (cases "files s (path_join dir (md5_hex lib (t @ vs) @ ''.mp3''))")
  case (Some old)
  then show ?thesis using assms
    by (auto simp: azure_synthesize_def Let_def existsSync_def audio_result_hit outcome_ok_def)
next
  case None
  then show ?thesis using assms
    by (auto simp: azure_synthesize_def Let_def existsSync_def
        http_send_def write_bytes_effect audio_result_hit outcome_ok_def
        split: http_outcome.splits if_splits option.splits)
qed

lemma google_outcome:
  assumes "google_synthesize lib io k lc vn g t dir s = (pr, s')"
    and "to_str (number_to_string lib) lc = Some ls"
    and "to_str (number_to_string lib) (or_else (Some vn) (JStr [])) = Some vs"
  shows "outcome_ok (path_join dir (md5_hex lib (t @ ls @ vs) @ ''.mp3''))
           (''/audio/'' @ md5_hex lib (t @ ls @ vs) @ ''.mp3'') s pr s'"
proof (cases "files s (path_join dir (md5_hex lib (t @ ls @ vs) @ ''.mp3''))")
  case (Some old)
  then show ?thesis using assms
    by (auto simp: google_synthesize_def Let_def existsSync_def audio_result_hit outcome_ok_def)
next
  case None
  then show ?thesis using assms
    by (auto simp: google_synthesize_def Let_def existsSync_def
        http_send_def write_bytes_effect audio_result_hit outcome_ok_def
        split: http_outcome.splits if_splits option.splits sum.splits)
qed

lemma generic_json_outcome:
  assumes "generic_json_response lib io ap url p buffer s = (pr, s')"
    and "files s p = None"
  shows "case pr of
           Resolved r \<Rightarrow>
             (\<exists>bs. r = \<lparr>audioUrl = Some url, duration = duration_of_size (length bs)\<rparr>
                   \<and> files s' = (files s)(p \<mapsto> bs) \<and> writes s' = writes s @ [p])
         | _ \<Rightarrow>
             (files s' = files s \<and> writes s' = writes s)
             \<or> (\<exists>bs. files s' = (files s)(p \<mapsto> bs) \<and> writes s' = writes s @ [p])"
  using assms
  by (auto simp: generic_json_response_def Let_def write_bytes_effect audio_result_hit
      split: if_splits option.splits sum.splits json.splits)

lemma generic_outcome:
  assumes "generic_synthesize lib io u m h b ap af t dir s = (pr, s')"
    and "to_str (number_to_string lib) u = Some us"
    and "to_str (number_to_string lib) af = Some fs"
  shows "outcome_ok (path_join dir (md5_hex lib (t @ us) @ ''.'' @ fs))
           (''/audio/'' @ md5_hex lib (t @ us) @ ''.'' @ fs) s pr s'"
proof (cases "files s (path_join dir (md5_hex lib (t @ us) @ ''.'' @ fs))")
  case (Some old)
  then show ?thesis using assms
    by (auto simp: generic_synthesize_def Let_def existsSync_def audio_result_hit outcome_ok_def)
next
  case None
  then show ?thesis using assms
    by (auto simp: generic_synthesize_def Let_def existsSync_def
        http_send_def write_bytes_effect audio_result_hit outcome_ok_def
        split: http_outcome.splits if_splits option.splits sum.splits promise.splits
        dest!: generic_json_outcome)
qed

lemma piper_outcome:
  assumes "piper_synthesize lib io c m av t dir s = (pr, s')"
  shows "local_outcome (path_join dir (md5_hex lib t @ ''.wav''))
           (''/audio/'' @ md5_hex lib t @ ''.wav'') (estimateDuration t) s pr s'"
proof (cases "files s (path_join dir (md5_hex lib t @ ''.wav''))")
  case (Some old)
  then show ?thesis using assms
    by (auto simp: piper_synthesize_def Let_def existsSync_def local_outcome_def)
next
  case None
  then show ?thesis using assms
    by (auto simp: piper_synthesize_def Let_def existsSync_def
        execSync_effect local_outcome_def split: if_splits option.splits)
qed

lemma voicevox_outcome:
  assumes "voicevox_synthesize lib io b sp pc sd it t dir s = (pr, s')"
  shows "local_outcome (path_join dir (md5_hex lib t @ ''.wav''))
           (''/audio/'' @ md5_hex lib t @ ''.wav'') (estimateDuration t) s pr s'"
proof (cases "files s (path_join dir (md5_hex lib t @ ''.wav''))")
  case (Some old)
  then show ?thesis using assms
    by (auto simp: voicevox_synthesize_def Let_def existsSync_def local_outcome_def)
next
  case None
  then show ?thesis using assms
    by (auto simp: voicevox_synthesize_def voicevox_failed_def Let_def existsSync_def
        write_bytes_effect local_outcome_def
        split: if_splits sum.splits prod.splits option.splits)
qed

lemma piper_writes:
  assumes "piper_synthesize lib io c m av t dir s = (pr, s')"
  shows "writes s' = writes s"
  using assms
  by (auto simp: piper_synthesize_def Let_def existsSync_def execSync_effect
      split: if_splits option.splits)

lemma voicevox_writes:
  assumes "voicevox_synthesize lib io b sp pc sd it t dir s = (pr, s')"
  shows "(files s' = files s \<and> writes s' = writes s)
         \<or> (\<exists>bs. files s' = (files s)(path_join dir (md5_hex lib t @ ''.wav'') \<mapsto> bs)
                 \<and> writes s' = writes s @ [path_join dir (md5_hex lib t @ ''.wav'')])"
  using assms
  by (auto simp: voicevox_synthesize_def voicevox_failed_def Let_def existsSync_def
      write_bytes_effect split: if_splits sum.splits prod.splits option.splits
      dest!: httpPost_files httpPostBinary_files)

lemma path_unbound: "\<not> index_js_bound ''path''"
  by (simp add: index_js_bound_def index_js_bindings_def module_wrapper_bindings_def
      node_globals_def)

lemma custom_rejects:
  "custom_synthesize lib io config t dir s =
     (Rejected (ReferenceError ''path is not defined''), s)"
  by (simp add: custom_synthesize_def path_unbound)

section \<open>One call of any adapter\<close>

lemma adapter_kinds:
  "hosted a \<or> local_engine a \<or> a = DummyTTS \<or> (\<exists>config. a = CustomTTS config)"
  by (cases a) simp_all

lemma cache_file_Some: "cache_file lib a t dir = Some p \<longleftrightarrow>
    (\<exists>n. cache_name lib a t = Some n \<and> p = path_join dir n)"
  by (auto simp: cache_file_def)

lemma cache_url_Some: "cache_url lib a t = Some u \<longleftrightarrow>
    (\<exists>n. cache_name lib a t = Some n \<and> u = ''/audio/'' @ n)"
  by (auto simp: cache_url_def)

lemma hosted_outcome:
  assumes "hosted a" and "cache_name lib a t = Some n"
    and "synthesize lib io a t dir s = (pr, s')"
  shows "outcome_ok (path_join dir n) (''/audio/'' @ n) s pr s'"
proof (cases a)
  case (OpenAITTS k m v)
  with assms(2) obtain vs where "to_str (number_to_string lib) v = Some vs"
    and "n = md5_hex lib (t @ vs) @ ''.mp3''" by auto
  with assms(3) OpenAITTS openai_outcome [of lib io k m v t dir s pr s' vs]
  show ?thesis by simp
next
  case (AzureTTS k rg v)
  with assms(2) obtain vs where "to_str (number_to_string lib) v = Some vs"
    and "n = md5_hex lib (t @ vs) @ ''.mp3''" by auto
  with assms(3) AzureTTS azure_outcome [of lib io k rg v t dir s pr s' vs]
  show ?thesis by simp
next
  case (GoogleTTS k lc vn g)
  with assms(2) obtain ls vs where "to_str (number_to_string lib) lc = Some ls"
    and "to_str (number_to_string lib) (or_else (Some vn) (JStr [])) = Some vs"
    and "n = md5_hex lib (t @ ls @ vs) @ ''.mp3''"
    by (auto split: option.splits)
  with assms(3) GoogleTTS google_outcome [of lib io k lc vn g t dir s pr s' ls vs]
  show ?thesis by simp
next
  case (GenericAPITTS u m h b ap af)
  with assms(2) obtain us fs where "to_str (number_to_string lib) u = Some us"
    and "to_str (number_to_string lib) af = Some fs"
    and "n = md5_hex lib (t @ us) @ ''.'' @ fs"
    by (auto split: option.splits)
  with assms(3) GenericAPITTS generic_outcome [of lib io u m h b ap af t dir s pr s' us fs]
  show ?thesis by simp
qed (use assms(1) in simp_all)

lemma hosted_unnamed:
  assumes "hosted a" and "cache_name lib a t = None"
  shows "synthesize lib io a t dir s = (Rejected conversion_error, s)"
  using assms
  by (cases a)
     (auto simp: openai_synthesize_def azure_synthesize_def google_synthesize_def
        generic_synthesize_def split: option.splits)

lemma local_engine_outcome:
  assumes "local_engine a" and "synthesize lib io a t dir s = (pr, s')"
  shows "\<exists>n. cache_name lib a t = Some n
            \<and> local_outcome (path_join dir n) (''/audio/'' @ n) (estimateDuration t) s pr s'"
proof (cases a)
  case (PiperTTS c m av)
  with assms(2) piper_outcome [of lib io c m av t dir s pr s'] show ?thesis by simp
next
  case (VoicevoxTTS b sp pc sd it)
  with assms(2) voicevox_outcome [of lib io b sp pc sd it t dir s pr s'] show ?thesis by simp
qed (use assms(1) in simp_all)

lemma hosted_resolved:
  assumes "hosted a" and "synthesize lib io a t dir s = (Resolved r, s')"
  shows "\<exists>n bs. cache_name lib a t = Some n \<and> files s' (path_join dir n) = Some bs
                \<and> r = \<lparr>audioUrl = Some (''/audio/'' @ n),
                        duration = duration_of_size (length bs)\<rparr>"
proof (cases "cache_name lib a t")
  case None
  from hosted_unnamed [OF assms(1) None, of io dir s] assms(2) show ?thesis by simp
next
  case (Some n)
  from hosted_outcome [OF assms(1) Some assms(2)] Some show ?thesis
    by (cases "files s (path_join dir n)") (auto simp: outcome_ok_def)
qed

lemma hosted_hit:
  assumes "hosted a" and "cache_name lib a t = Some n"
    and "files s (path_join dir n) = Some old"
  shows "\<exists>s'. synthesize lib io a t dir s =
                 (Resolved \<lparr>audioUrl = Some (''/audio/'' @ n),
                            duration = duration_of_size (length old)\<rparr>, s')
              \<and> files s' = files s \<and> invocations s' = invocations s \<and> writes s' = writes s"
proof -
  obtain pr s' where run: "synthesize lib io a t dir s = (pr, s')"
    by (cases "synthesize lib io a t dir s")
  from hosted_outcome [OF assms(1,2) run] assms(3) run show ?thesis
    by (simp add: outcome_ok_def)
qed

lemma hosted_writes:
  assumes "hosted a" and "synthesize lib io a t dir s = (pr, s')"
  shows "(files s' = files s \<and> writes s' = writes s)
         \<or> (\<exists>n bs. cache_name lib a t = Some n
                 \<and> files s' = (files s)(path_join dir n \<mapsto> bs)
                 \<and> writes s' = writes s @ [path_join dir n])"
proof (cases "cache_name lib a t")
  case None
  from hosted_unnamed [OF assms(1) None, of io dir s] assms(2) show ?thesis by simp
next
  case (Some n)
  from hosted_outcome [OF assms(1) Some assms(2)] Some show ?thesis
    by (cases "files s (path_join dir n)"; cases pr) (auto simp: outcome_ok_def)
qed

lemma local_resolved:
  assumes "local_engine a" and "synthesize lib io a t dir s = (Resolved r, s')"
    and "audioUrl r = Some u"
  shows "\<exists>n. cache_name lib a t = Some n \<and> u = ''/audio/'' @ n
            \<and> files s' (path_join dir n) \<noteq> None"
proof -
  from local_engine_outcome [OF assms(1,2)] obtain n
    where n: "cache_name lib a t = Some n"
      and out: "local_outcome (path_join dir n) (''/audio/'' @ n) (estimateDuration t) s
                  (Resolved r) s'"
    by blast
  from out assms(3) have "u = ''/audio/'' @ n \<and> files s' (path_join dir n) \<noteq> None"
    by (cases "files s (path_join dir n)") (auto simp: local_outcome_def)
  with n show ?thesis by blast
qed

lemma local_duration:
  assumes "local_engine a" and "synthesize lib io a t dir s = (Resolved r, s')"
  shows "duration r = estimateDuration t"
proof -
  from local_engine_outcome [OF assms(1,2)] obtain n
    where out: "local_outcome (path_join dir n) (''/audio/'' @ n) (estimateDuration t) s
                  (Resolved r) s'"
    by blast
  then show ?thesis
    by (cases "files s (path_join dir n)") (auto simp: local_outcome_def)
qed

lemma local_hit:
  assumes "local_engine a" and "cache_name lib a t = Some n"
    and "files s (path_join dir n) \<noteq> None"
  shows "\<exists>s'. synthesize lib io a t dir s =
                 (Resolved \<lparr>audioUrl = Some (''/audio/'' @ n),
                            duration = estimateDuration t\<rparr>, s')
              \<and> files s' = files s \<and> invocations s' = invocations s \<and> writes s' = writes s"
proof -
  obtain pr s' where run: "synthesize lib io a t dir s = (pr, s')"
    by (cases "synthesize lib io a t dir s")
  from local_engine_outcome [OF assms(1) run] assms(2,3) run show ?thesis
    by (auto simp: local_outcome_def)
qed

text \<open>Every resolved call with audio names the cache URL and leaves the cache file.\<close>

lemma resolved_with_audio:
  assumes "synthesize lib io a t dir s = (Resolved r, s')" and "audioUrl r = Some u"
  shows "\<exists>n. cache_name lib a t = Some n \<and> u = ''/audio/'' @ n
            \<and> files s' (path_join dir n) \<noteq> None"
proof -
  consider (h) "hosted a" | (l) "local_engine a" | (d) "a = DummyTTS"
    | (c) config where "a = CustomTTS config"
    using adapter_kinds [of a] by blast
  then show ?thesis
  proof cases
    case h
    from hosted_resolved [OF h assms(1)] assms(2) show ?thesis by auto
  next
    case l
    from local_resolved [OF l assms] show ?thesis .
  next
    case d
    with assms show ?thesis by (auto simp: dummy_synthesize_def)
  next
    case c
    with assms(1) show ?thesis by (simp add: custom_rejects)
  qed
qed

text \<open>Every call of an adapter other than Piper changes no file or writes the cache
  file, once.\<close>

lemma one_write:
  assumes run: "synthesize lib io a t dir s = (pr, s')" and other: "\<not> is_piper a"
  shows "(files s' = files s \<and> writes s' = writes s)
         \<or> (\<exists>n bs. cache_name lib a t = Some n
                 \<and> files s' = (files s)(path_join dir n \<mapsto> bs)
                 \<and> writes s' = writes s @ [path_join dir n])"
proof (cases a)
  case DummyTTS
  with run show ?thesis by (auto simp: dummy_synthesize_def)
next
  case (PiperTTS c m av)
  with other show ?thesis by simp
next
  case (VoicevoxTTS b sp pc sd it)
  with run voicevox_writes [of lib io b sp pc sd it t dir s pr s'] show ?thesis by simp
next
  case (CustomTTS config)
  with run show ?thesis by (auto simp: custom_rejects)
qed (use run hosted_writes [of a lib io t dir s pr s'] in simp_all)

subsection \<open>Paths\<close>

lemma split_on_plain: "d \<notin> set n \<Longrightarrow> split_on d n = [n]"
  by (induction n) auto

lemma split_on_nonempty: "split_on d xs \<noteq> []"
  by (induction xs) (auto split: list.splits)

lemma split_on_append:
  "split_on d (xs @ d # ys) = split_on d xs @ split_on d ys"
  using split_on_nonempty [of d]
  by (induction xs) (auto split: list.splits)

lemma join_split: "join_slash (split_on (CHR ''/'') p) = p"
proof (induction p)
  case Nil
  show ?case by simp
next
  case (Cons c p)
  obtain x xs where sp: "split_on (CHR ''/'') p = x # xs"
    using split_on_nonempty [of "CHR ''/''" p] by (cases "split_on (CHR ''/'') p") auto
  with Cons show ?case by (cases xs) auto
qed

lemma join_slash_snoc:
  "segs \<noteq> [] \<Longrightarrow> join_slash (segs @ [n]) = join_slash segs @ ''/'' @ n"
proof (induction segs rule: join_slash.induct)
  case 1
  then show ?case by simp
next
  case (2 s)
  show ?case by simp
next
  case (3 s t ss)
  then show ?case by simp
qed

lemma resolve_dots_plain:
  "list_all plain_segment segs \<Longrightarrow> resolve_dots rel acc segs = rev acc @ segs"
  by (induction segs arbitrary: acc) (auto simp: plain_segment_def)

lemma join_slash_nonempty:
  "segs \<noteq> [] \<Longrightarrow> list_all plain_segment segs \<Longrightarrow> join_slash segs \<noteq> []"
  by (induction segs rule: join_slash.induct) (auto simp: plain_segment_def)

lemma plain_segment_hd: "plain_segment s \<Longrightarrow> hd s \<noteq> CHR ''/''"
  by (cases s) (auto simp: plain_segment_def)

lemma join_slash_hd:
  "segs \<noteq> [] \<Longrightarrow> list_all plain_segment segs \<Longrightarrow> hd (join_slash segs) \<noteq> CHR ''/''"
proof (induction segs rule: join_slash.induct)
  case 1
  then show ?case by simp
next
  case (2 s)
  then show ?case by (simp add: plain_segment_hd)
next
  case (3 s t ss)
  then have "plain_segment s" by simp
  then have "s \<noteq> []" and "hd s \<noteq> CHR ''/''"
    by (simp_all add: plain_segment_hd) (simp add: plain_segment_def)
  then show ?case by simp
qed

text \<open>Joining a directory in normal form and a plain file name puts the file directly
  into the directory.\<close>

lemma path_join_plain:
  assumes dir: "clean_dir dir" and name: "plain_segment n"
  shows "path_join dir n = dir @ ''/'' @ n"
proof -
  from name have n: "n \<noteq> []" "CHR ''/'' \<notin> set n" by (simp_all add: plain_segment_def)
  have lastn: "last n \<noteq> CHR ''/''" using n by (metis last_in_set)
  obtain first segs where sp: "split_on (CHR ''/'') dir = first # segs"
    using split_on_nonempty [of "CHR ''/''" dir] by (cases "split_on (CHR ''/'') dir") auto
  have dir_eq: "dir = join_slash (first # segs)"
    using join_split [of dir] sp by simp
  have split_all: "split_on (CHR ''/'') (dir @ ''/'' @ n) = first # segs @ [n]"
    using split_on_append [of "CHR ''/''" dir n] sp split_on_plain [OF n(2)] by simp
  show ?thesis
  proof (cases "first = []")
    case True
    with dir sp have segs: "segs \<noteq> []" "list_all plain_segment segs"
      by (simp_all add: clean_dir_def)
    from True segs dir_eq have d: "dir = ''/'' @ join_slash segs"
      by (cases segs) simp_all
    have all: "list_all plain_segment (segs @ [n])" using segs name by simp
    have body: "resolve_dots False [] (split_on (CHR ''/'') (dir @ CHR ''/'' # n))
                = segs @ [n]"
      using True resolve_dots_plain [OF all, of False "[]"] split_all by simp
    have filled: "join_slash (segs @ [n]) \<noteq> []"
      using join_slash_nonempty [OF _ all] by simp
    have ne: "dir \<noteq> []" and hd: "hd dir = CHR ''/''" using d by simp_all
    have "path_normalize (dir @ ''/'' @ n) = ''/'' @ join_slash (segs @ [n])"
      using ne hd n lastn filled
      by (simp add: path_normalize_def Let_def body del: resolve_dots.simps)
    also have "\<dots> = dir @ ''/'' @ n"
      using d join_slash_snoc [OF segs(1), of n] by simp
    finally show ?thesis using d n by (simp add: path_join_def)
  next
    case False
    with dir sp have all0: "list_all plain_segment (first # segs)"
      by (simp add: clean_dir_def)
    then have all: "list_all plain_segment ((first # segs) @ [n])" using name by simp
    have ne: "dir \<noteq> []" using dir_eq join_slash_nonempty [OF _ all0] by simp
    have hd: "hd dir \<noteq> CHR ''/''" using dir_eq join_slash_hd [OF _ all0] by simp
    have body: "resolve_dots True [] (split_on (CHR ''/'') (dir @ CHR ''/'' # n))
                = (first # segs) @ [n]"
      using resolve_dots_plain [OF all, of True "[]"] split_all by simp
    have filled: "join_slash ((first # segs) @ [n]) \<noteq> []"
      using join_slash_nonempty [OF _ all] by simp
    have "path_normalize (dir @ ''/'' @ n) = join_slash ((first # segs) @ [n])"
      using ne hd n lastn filled
      by (simp add: path_normalize_def Let_def body del: resolve_dots.simps)
    also have "\<dots> = dir @ ''/'' @ n"
      using dir_eq join_slash_snoc [of "first # segs" n] by simp
    finally show ?thesis using ne n by (simp add: path_join_def)
  qed
qed

text \<open>The definitions a concrete run unfolds.\<close>

lemmas run_defs =
  openai_synthesize_def google_synthesize_def generic_synthesize_def voicevox_synthesize_def
  piper_synthesize_def httpPost_def httpPostBinary_def post_request_def generic_body_def
  generic_json_response_def piper_command_def voicevox_query_url_def voicevox_params_line_def
  voicevox_synth_url_def voicevox_failed_def audio_result_def getAudioDuration_def
  existsSync_def statSync_size_def write_bytes_def execSync_def http_send_def emit_def
  path_join_def path_normalize_def test_lib_def test_io_def empty_sys_def Let_def

lemmas demo_defs =
  openai_demo_def google_demo_def generic_demo_def piper_demo_def voicevox_demo_def
  custom_demo_def escaping_demo_def offline_def served_def createVoicevoxTTS_def or_else_def

section \<open>C1: the HTTP call sites degrade on rejection\<close>




section \<open>C2: the duration estimator\<close>

text \<open>
  C2, as stated, fails: the claim says that for every string the estimator returns
  \<open>max(500, round(1000 * len / 12))\<close>. On a text of seven code units the code returns
  \<open>1750 / 3\<close> (583.33...); the specification's formula gives 583.
\<close>

theorem C2_counterexample:
  "estimateDuration ''abcdefg'' = 1750 / 3 \<and> spec_estimate ''abcdefg'' = 583
   \<and> estimateDuration ''abcdefg'' \<noteq> spec_estimate ''abcdefg''"
  by (simp add: estimateDuration_def spec_estimate_def math_round_def charsPerSecond_def
      floor_rat_numeral)

text \<open>
  C2, amended. For every string the estimator returns the unrounded
  \<open>max(500, (len / 12) * 1000)\<close>. The specification's formula is the rounding of that
  value and so at most half a millisecond away from it. For a text of 120 code units the
  estimator returns exactly 10000.
\<close>

theorem C2_estimate_unrounded:
  "estimateDuration t = max 500 (of_nat (length t) / 12 * 1000)
   \<and> spec_estimate t = math_round (estimateDuration t)
   \<and> \<bar>spec_estimate t - estimateDuration t\<bar> \<le> 1 / 2
   \<and> estimateDuration (replicate 120 c) = 10000"
proof -
  have "estimateDuration t = max 500 (of_nat (length t) / 12 * 1000)"
    by (simp add: estimateDuration_def charsPerSecond_def)
  moreover have "estimateDuration (replicate 120 c) = 10000"
    by (simp add: estimateDuration_def charsPerSecond_def)
  ultimately show ?thesis
    using spec_is_rounded [of t] spec_close [of t] by simp
qed

section \<open>C3: cache stability\<close>

text \<open>
  C3, as stated, fails: an adapter short-circuits only on a cache file. The VOICEVOX
  adapter with its server down resolves twice with no audio, and the second call sends
  a request again: one request has been made after the first call, two after the
  second.
\<close>

theorem C3_counterexample:
  "fst offline_first = Resolved \<lparr>audioUrl = None, duration = 500\<rparr>
   \<and> fst offline_second = Resolved \<lparr>audioUrl = None, duration = 500\<rparr>
   \<and> length (invocations (snd offline_first)) = 1
   \<and> length (invocations (snd offline_second)) = 2"
  by (simp add: offline_second_def offline_first_def demo_defs run_defs invocations_def
      estimateDuration_def charsPerSecond_def)

text \<open>
  C3, amended. For every adapter, text and configuration: if a call resolves with an
  audio URL, the next call on the state it left, whatever the world then does, resolves
  with the same audio URL, performs no network request and no process invocation and
  changes no file. The URL is the cache URL, a function of the text and the adapter's
  settings only.
\<close>

theorem C3_cache_hit_after_success:
  assumes first: "synthesize lib io1 a t dir s = (Resolved r, s1)"
    and audio: "audioUrl r = Some u"
  shows "\<exists>d s2. synthesize lib io2 a t dir s1
                  = (Resolved \<lparr>audioUrl = Some u, duration = d\<rparr>, s2)
               \<and> invocations s2 = invocations s1 \<and> files s2 = files s1
               \<and> cache_url lib a t = Some u"
proof -
  from resolved_with_audio [OF first audio] obtain n
    where n: "cache_name lib a t = Some n" and u: "u = ''/audio/'' @ n"
      and present: "files s1 (path_join dir n) \<noteq> None"
    by blast
  from n u have url: "cache_url lib a t = Some u" by (simp add: cache_url_def)
  consider (h) "hosted a" | (l) "local_engine a" | (d) "a = DummyTTS"
    | (c) config where "a = CustomTTS config"
    using adapter_kinds [of a] by blast
  then show ?thesis
  proof cases
    case h
    from present obtain bs where "files s1 (path_join dir n) = Some bs" by auto
    from hosted_hit [OF h n this, of io2] u url show ?thesis by auto
  next
    case l
    from local_hit [OF l n present, of io2] u url show ?thesis by auto
  next
    case d
    with n show ?thesis by simp
  next
    case c
    with first show ?thesis by (simp add: custom_rejects)
  qed
qed

text \<open>
  Witness for C3: the OpenAI adapter receives 32000 bytes and resolves with
  \<^verbatim>\<open>/audio/hialloy.mp3\<close>; the next call, with the network down, resolves with the
  same URL and invokes nothing.
\<close>

theorem C3_cache_hit_after_success_witness:
  "fst first_call = Resolved \<lparr>audioUrl = Some ''/audio/hialloy.mp3'', duration = 2000\<rparr>
   \<and> (\<exists>d s2. synthesize test_lib offline openai_demo ''hi'' ''public/audio'' (snd first_call)
                = (Resolved \<lparr>audioUrl = Some ''/audio/hialloy.mp3'', duration = d\<rparr>, s2)
             \<and> invocations s2 = invocations (snd first_call)
             \<and> files s2 = files (snd first_call))"
proof -
  have res: "fst first_call
             = Resolved \<lparr>audioUrl = Some ''/audio/hialloy.mp3'', duration = 2000\<rparr>"
    by (simp add: first_call_def demo_defs run_defs size_eval)
  then have run: "synthesize test_lib served openai_demo ''hi'' ''public/audio'' empty_sys
                  = (Resolved \<lparr>audioUrl = Some ''/audio/hialloy.mp3'', duration = 2000\<rparr>,
                     snd first_call)"
    by (simp add: first_call_def prod_eq_iff)
  from C3_cache_hit_after_success [OF run, of "''/audio/hialloy.mp3''" offline] res
  show ?thesis by auto
qed

section \<open>C4: the disabled engine\<close>

text \<open>
  C4. For every text and output directory the disabled (none) engine resolves, never
  rejects, with \<^verbatim>\<open>{ audioUrl: null, duration: estimateDuration(text) }\<close>, and the state
  after the call is the state before it: no file is touched and no operation (file
  system, network, process, console) is performed.
\<close>

theorem C4_disabled_engine:
  "synthesize lib io DummyTTS t dir s
     = (Resolved \<lparr>audioUrl = None, duration = estimateDuration t\<rparr>, s)"
  by (simp add: dummy_synthesize_def)

section \<open>C5: the engine factory\<close>

text \<open>
  C5, as stated, fails in both halves. An absent engine tag does not log a warning: with
  no configuration at all the factory takes \<^verbatim>\<open>'none'\<close> as the tag, which is a case of
  the \<^verbatim>\<open>switch\<close>, and returns the disabled adapter silently. And the factory can
  throw: for the tag \<^verbatim>\<open>{ toString: 1 }\<close> the \<^verbatim>\<open>switch\<close> reaches its default branch,
  whose template literal cannot convert the tag to a string and throws a
  \<^verbatim>\<open>TypeError\<close>.
\<close>

theorem C5_counterexample:
  "createTTSEngine test_lib offline None empty_sys = Inr (DummyTTS, empty_sys)
   \<and> warnings empty_sys = []
   \<and> createTTSEngine test_lib offline (Some unprintable_config) empty_sys
       = Inl (TypeError ''Cannot convert object to primitive value'')"
  by (simp add: createTTSEngine_def or_else_def warnings_def empty_sys_def
      unprintable_config_def conversion_error_def)

text \<open>
  C5, amended. When the engine tag is absent or falsy the factory returns the disabled
  adapter and logs nothing. When the tag is one of the eight known tag strings it
  returns an adapter. When the tag is any other value, the factory converts it to a
  string for the warning: if the tag converts, it logs the one warning, which names the
  tag, and returns the disabled adapter; if it does not convert, the factory throws a
  \<^verbatim>\<open>TypeError\<close>. It throws in no other case.
\<close>

theorem C5_factory_fallback:
  "(\<not> truthy (get_prop config ''engine'') \<longrightarrow>
      createTTSEngine lib io config s = Inr (DummyTTS, s))
   \<and> (get_prop config ''engine'' = Some e \<and> e \<in> JStr ` set known_engines \<longrightarrow>
      (\<exists>a s'. createTTSEngine lib io config s = Inr (a, s')))
   \<and> (truthy (Some e) \<and> get_prop config ''engine'' = Some e \<and> e \<notin> JStr ` set known_engines \<longrightarrow>
      createTTSEngine lib io config s
        = (case to_str (number_to_string lib) e of
             Some tag \<Rightarrow>
               Inr (DummyTTS,
                    emit (ConsoleWarn (''Unknown TTS engine: '' @ tag @ '', using none'')) s)
           | None \<Rightarrow> Inl (TypeError ''Cannot convert object to primitive value'')))"
proof -
  have absent: "createTTSEngine lib io config s = Inr (DummyTTS, s)"
    if "\<not> truthy (get_prop config ''engine'')"
    using that by (simp add: createTTSEngine_def or_else_falsy)
  have known: "\<exists>a s'. createTTSEngine lib io config s = Inr (a, s')"
    if "get_prop config ''engine'' = Some e" and "e \<in> JStr ` set known_engines"
  proof -
    from that(2) have "truthy (Some e)" by (auto simp: known_engines_def)
    with that(1) have "or_else (get_prop config ''engine'') (JStr ''none'') = e"
      by (simp add: or_else_truthy)
    with that(2) show ?thesis
      by (auto simp: createTTSEngine_def known_engines_def prod_eq_iff)
  qed
  have unknown: "createTTSEngine lib io config s
        = (case to_str (number_to_string lib) e of
             Some tag \<Rightarrow>
               Inr (DummyTTS,
                    emit (ConsoleWarn (''Unknown TTS engine: '' @ tag @ '', using none'')) s)
           | None \<Rightarrow> Inl (TypeError ''Cannot convert object to primitive value''))"
    if "truthy (Some e)" and "get_prop config ''engine'' = Some e"
      and "e \<notin> JStr ` set known_engines"
  proof -
    from that(1,2) have "or_else (get_prop config ''engine'') (JStr ''none'') = e"
      by (simp add: or_else_truthy)
    with that(3) show ?thesis
      by (cases "to_str (number_to_string lib) e")
         (simp_all add: createTTSEngine_def known_engines_def conversion_error_def)
  qed
  from absent known unknown show ?thesis by blast
qed

text \<open>
  Witness for C5: no configuration gives the disabled adapter and an unchanged state;
  the tag \<^verbatim>\<open>voicevox\<close> gives an adapter; the tag \<^verbatim>\<open>espeak\<close> gives the disabled
  adapter and the warning.
\<close>

theorem C5_factory_fallback_witness:
  "\<not> truthy (get_prop None ''engine'')
   \<and> createTTSEngine test_lib offline None empty_sys = Inr (DummyTTS, empty_sys)
   \<and> get_prop (Some (JObj [(''engine'', JStr ''voicevox'')])) ''engine''
       = Some (JStr ''voicevox'')
   \<and> JStr ''voicevox'' \<in> JStr ` set known_engines
   \<and> (\<exists>a s'. createTTSEngine test_lib offline (Some (JObj [(''engine'', JStr ''voicevox'')]))
                empty_sys = Inr (a, s'))
   \<and> truthy (Some (JStr ''espeak''))
   \<and> get_prop (Some (JObj [(''engine'', JStr ''espeak'')])) ''engine'' = Some (JStr ''espeak'')
   \<and> JStr ''espeak'' \<notin> JStr ` set known_engines
   \<and> createTTSEngine test_lib offline (Some (JObj [(''engine'', JStr ''espeak'')])) empty_sys
       = Inr (DummyTTS, emit (ConsoleWarn ''Unknown TTS engine: espeak, using none'') empty_sys)"
  using C5_factory_fallback [where config = None and e = "JStr ''espeak''"
      and lib = test_lib and io = offline and s = empty_sys]
    C5_factory_fallback [where config = "Some (JObj [(''engine'', JStr ''voicevox'')])"
      and e = "JStr ''voicevox''" and lib = test_lib and io = offline and s = empty_sys]
    C5_factory_fallback [where config = "Some (JObj [(''engine'', JStr ''espeak'')])"
      and e = "JStr ''espeak''" and lib = test_lib and io = offline and s = empty_sys]
  by (simp add: known_engines_def)

section \<open>C6: transport and protocol errors of the hosted adapters\<close>

text \<open>
  C6 holds for the OpenAI and Azure adapters and fails for the other two. The generic
  adapter never looks at the status code: a 500 response that is not JSON is written to
  the cache file as if it were audio and the call resolves with the audio URL. The
  Google adapter parses the body inside the \<^verbatim>\<open>'end'\<close> callback without a
  \<^verbatim>\<open>try\<close>: on a 200 response with malformed JSON the exception leaves the callback
  and the promise neither rejects nor resolves.
\<close>

theorem C6_error_response_not_rejected:
  "fst (synthesize test_lib (test_io (Response 500 ''text/html'' [60, 104, 49, 62]) None None)
          generic_demo ''hi'' ''public/audio'' empty_sys)
     = Resolved \<lparr>audioUrl = Some ''/audio/hihttptts.mp3'', duration = 0\<rparr>
   \<and> files (snd (synthesize test_lib
                   (test_io (Response 500 ''text/html'' [60, 104, 49, 62]) None None)
                   generic_demo ''hi'' ''public/audio'' empty_sys))
        ''public/audio/hihttptts.mp3'' = Some [60, 104, 49, 62]
   \<and> fst (synthesize test_lib (test_io (Response 200 ''application/json'' [123]) None None)
            google_demo ''hi'' ''public/audio'' empty_sys)
       = Unsettled (SyntaxError ''Unexpected token in JSON'')"
  by (simp add: demo_defs run_defs size_eval)

section \<open>C7: where the duration comes from\<close>

text \<open>
  C7, as stated, fails twice. Piper and VOICEVOX produce real audio files and return the
  text estimate: Piper writes a 32000-byte file for the text \<^verbatim>\<open>hi\<close> and the call
  returns 500 ms, the estimate for two characters, where the file-size formula gives
  2000 ms. And the hosted adapters do not return \<open>round(1000 * size / 16000)\<close>: the
  code divides first and multiplies afterwards, in doubles, and for a file of 8008 bytes
  \<^verbatim>\<open>(8008 / 16000) * 1000\<close> is \<open>500.49999999999994\<close>, so the call returns 500 where
  the formula of the claim gives 501.
\<close>

theorem C7_counterexample:
  "fst piper_run = Resolved \<lparr>audioUrl = Some ''/audio/hi.wav'', duration = 500\<rparr>
   \<and> files (snd piper_run) ''public/audio/hi.wav'' = Some (replicate 32000 0)
   \<and> math_round (1000 * of_nat (length (replicate 32000 (0 :: 8 word))) / 16000) = 2000
   \<and> fst odd_size_call = Resolved \<lparr>audioUrl = Some ''/audio/hialloy.mp3'', duration = 500\<rparr>
   \<and> files (snd odd_size_call) ''public/audio/hialloy.mp3'' = Some (replicate 8008 0)
   \<and> math_round (1000 * of_nat (length (replicate 8008 (0 :: 8 word))) / 16000) = 501"
  by (simp add: piper_run_def odd_size_call_def demo_defs run_defs size_eval math_round_def
      floor_rat_numeral estimateDuration_def charsPerSecond_def)

text \<open>
  C7, amended. For the hosted adapters (OpenAI, Google, Azure, generic API) every
  resolved call returns \<^verbatim>\<open>Math.round((size / 16000) * 1000)\<close> for the size of the file
  at the cache path, the quotient and the product each rounded to the nearest double
  before \<^verbatim>\<open>Math.round\<close>; the audio is not decoded and the text length is not used.
  Every other adapter (Piper and VOICEVOX, also when they produced a file, and the
  disabled engine) returns the text estimate.
\<close>

theorem C7_duration_source:
  assumes "synthesize lib io a t dir s = (Resolved r, s')"
  shows "if hosted a
         then (\<exists>p bs. cache_file lib a t dir = Some p \<and> files s' p = Some bs
                    \<and> duration r
                        = math_round (double_of (double_of (of_nat (length bs) / 16000) * 1000)))
         else duration r = estimateDuration t"
proof -
  consider (h) "hosted a" | (l) "local_engine a" | (d) "a = DummyTTS"
    | (c) config where "a = CustomTTS config"
    using adapter_kinds [of a] by blast
  then show ?thesis
  proof cases
    case h
    with hosted_resolved [OF h assms] show ?thesis
      by (auto simp: duration_of_size_def cache_file_def)
  next
    case l
    then have "\<not> hosted a" by (cases a) simp_all
    with local_duration [OF l assms] show ?thesis by simp
  next
    case d
    with assms show ?thesis by (auto simp: dummy_synthesize_def)
  next
    case c
    with assms show ?thesis by (simp add: custom_rejects)
  qed
qed

text \<open>
  Witness for C7: the OpenAI adapter stores 32000 bytes and returns 2000 ms.
\<close>

theorem C7_duration_source_witness:
  "fst first_call = Resolved \<lparr>audioUrl = Some ''/audio/hialloy.mp3'', duration = 2000\<rparr>
   \<and> hosted openai_demo
   \<and> (\<exists>p bs. cache_file test_lib openai_demo ''hi'' ''public/audio'' = Some p
            \<and> files (snd first_call) p = Some bs
            \<and> 2000 = math_round (double_of (double_of (of_nat (length bs) / 16000) * 1000)))"
proof -
  have res: "fst first_call
             = Resolved \<lparr>audioUrl = Some ''/audio/hialloy.mp3'', duration = 2000\<rparr>"
    by (simp add: first_call_def demo_defs run_defs size_eval)
  then have run: "synthesize test_lib served openai_demo ''hi'' ''public/audio'' empty_sys
                  = (Resolved \<lparr>audioUrl = Some ''/audio/hialloy.mp3'', duration = 2000\<rparr>,
                     snd first_call)"
    by (simp add: first_call_def prod_eq_iff)
  have h: "hosted openai_demo" by (simp add: openai_demo_def)
  from C7_duration_source [OF run] h res show ?thesis by simp
qed

section \<open>C8: what a call leaves in the cache directory\<close>

text \<open>
  C8, as stated, fails twice. The adapters write straight to the canonical cache path:
  the OpenAI adapter receives four bytes, the write fails after two, the call rejects,
  and the two bytes stay at the cache path; the next call finds them, takes them for a
  cache hit and resolves with the audio URL. And the file of a successful call need not
  be under the output directory: \<^verbatim>\<open>path.join\<close> resolves \<^verbatim>\<open>..\<close> segments, so the
  generic adapter configured with the output format \<^verbatim>\<open>x/../../../outside.mp3\<close> and
  the directory \<^verbatim>\<open>/srv/public/audio\<close> writes \<^verbatim>\<open>/srv/outside.mp3\<close>.
\<close>

theorem C8_counterexample:
  "fst torn_first = Rejected (Error ''write stream error'')
   \<and> files (snd torn_first) ''public/audio/hialloy.mp3'' = Some [1, 2]
   \<and> fst torn_second = Resolved \<lparr>audioUrl = Some ''/audio/hialloy.mp3'', duration = 0\<rparr>
   \<and> fst escaping_run
       = Resolved \<lparr>audioUrl = Some ''/audio/hihttptts.x/../../../outside.mp3'', duration = 0\<rparr>
   \<and> writes (snd escaping_run) = [''/srv/outside.mp3'']
   \<and> files (snd escaping_run) ''/srv/outside.mp3'' = Some [1, 2, 3, 4]"
  by (simp add: torn_second_def torn_first_def escaping_run_def demo_defs run_defs size_eval
      writes_def)

text \<open>
  C8, amended. No adapter uses a temporary file. A call of any adapter but Piper leaves
  the files as they were or writes exactly one file, the one at the canonical cache
  path, also when the call fails; Piper opens no file itself (its file is written by the
  external command).
  Whatever file is at the cache path of a hosted or local adapter, complete or not, the
  next call takes for a cache hit: it resolves with the audio URL and invokes nothing.
  A call of any adapter that resolves with an audio URL leaves a file at the canonical
  cache path, and for every adapter but Piper a call that found no cache entry has
  written exactly that one file. The cache path is the normalised join of the output
  directory and the cache file name; it lies directly in the output directory when the
  directory is in normal form and the name is a single path segment.
\<close>

theorem C8_only_the_cache_file:
  assumes run: "synthesize lib io a t dir s = (pr, s')"
  shows "(\<not> is_piper a \<longrightarrow>
            (files s' = files s \<and> writes s' = writes s)
            \<or> (\<exists>p bs. cache_file lib a t dir = Some p \<and> files s' = (files s)(p \<mapsto> bs)
                    \<and> writes s' = writes s @ [p]))
       \<and> (is_piper a \<longrightarrow> writes s' = writes s)
       \<and> (\<forall>p bs. (hosted a \<or> local_engine a) \<and> cache_file lib a t dir = Some p
                  \<and> files s' p = Some bs \<longrightarrow>
            (\<exists>d s2. synthesize lib io2 a t dir s'
                       = (Resolved \<lparr>audioUrl = cache_url lib a t, duration = d\<rparr>, s2)
                    \<and> invocations s2 = invocations s' \<and> files s2 = files s'))
       \<and> (\<forall>r u. pr = Resolved r \<and> audioUrl r = Some u \<longrightarrow>
            (\<exists>p. cache_file lib a t dir = Some p \<and> files s' p \<noteq> None
                 \<and> (\<not> is_piper a \<and> files s p = None \<longrightarrow>
                      (\<exists>bs. files s' = (files s)(p \<mapsto> bs) \<and> writes s' = writes s @ [p]))))
       \<and> (\<forall>n. clean_dir dir \<and> cache_name lib a t = Some n \<and> plain_segment n \<longrightarrow>
            cache_file lib a t dir = Some (dir @ ''/'' @ n))"
proof -
  have one: "(files s' = files s \<and> writes s' = writes s)
            \<or> (\<exists>p bs. cache_file lib a t dir = Some p \<and> files s' = (files s)(p \<mapsto> bs)
                    \<and> writes s' = writes s @ [p])"
    if other: "\<not> is_piper a"
    using one_write [OF run other] by (auto simp: cache_file_def)
  have piper: "writes s' = writes s" if "is_piper a"
    using that run by (cases a) (simp_all add: piper_writes)
  have hit: "\<exists>d s2. synthesize lib io2 a t dir s'
                       = (Resolved \<lparr>audioUrl = cache_url lib a t, duration = d\<rparr>, s2)
                    \<and> invocations s2 = invocations s' \<and> files s2 = files s'"
    if kind: "hosted a \<or> local_engine a" and p: "cache_file lib a t dir = Some p"
      and bs: "files s' p = Some bs" for p bs
  proof -
    from p obtain n where n: "cache_name lib a t = Some n" and pn: "p = path_join dir n"
      by (auto simp: cache_file_def)
    from n have url: "cache_url lib a t = Some (''/audio/'' @ n)"
      by (simp add: cache_url_def)
    from kind show ?thesis
    proof
      assume h: "hosted a"
      from bs pn have "files s' (path_join dir n) = Some bs" by simp
      from hosted_hit [OF h n this, of io2] url show ?thesis by auto
    next
      assume l: "local_engine a"
      from bs pn have "files s' (path_join dir n) \<noteq> None" by simp
      from local_hit [OF l n this, of io2] url show ?thesis by auto
    qed
  qed
  have made: "\<exists>p. cache_file lib a t dir = Some p \<and> files s' p \<noteq> None
                 \<and> (\<not> is_piper a \<and> files s p = None \<longrightarrow>
                      (\<exists>bs. files s' = (files s)(p \<mapsto> bs) \<and> writes s' = writes s @ [p]))"
    if res: "pr = Resolved r" and url: "audioUrl r = Some u" for r u
  proof -
    from run res have run_r: "synthesize lib io a t dir s = (Resolved r, s')" by simp
    from resolved_with_audio [OF run_r url] obtain n
      where n: "cache_name lib a t = Some n"
        and present: "files s' (path_join dir n) \<noteq> None"
      by blast
    from n have p: "cache_file lib a t dir = Some (path_join dir n)"
      by (simp add: cache_file_def)
    have "\<exists>bs. files s' = (files s)(path_join dir n \<mapsto> bs)
               \<and> writes s' = writes s @ [path_join dir n]"
      if other: "\<not> is_piper a" and miss: "files s (path_join dir n) = None"
      using one_write [OF run other] n present miss by auto
    then have "\<not> is_piper a \<and> files s (path_join dir n) = None \<longrightarrow>
                 (\<exists>bs. files s' = (files s)(path_join dir n \<mapsto> bs)
                       \<and> writes s' = writes s @ [path_join dir n])"
      by blast
    with p present show ?thesis by blast
  qed
  have under: "cache_file lib a t dir = Some (dir @ ''/'' @ n)"
    if "clean_dir dir" and "cache_name lib a t = Some n" and "plain_segment n" for n
    using that by (simp add: cache_file_def path_join_plain)
  from one piper hit made under show ?thesis by blast
qed

text \<open>
  Witness for C8: the OpenAI adapter, from an empty cache, writes the one file
  \<^verbatim>\<open>public/audio/hialloy.mp3\<close>, directly in the output directory, and the next call
  takes it for a hit.
\<close>

theorem C8_only_the_cache_file_witness:
  "\<not> is_piper openai_demo \<and> hosted openai_demo
   \<and> clean_dir ''public/audio'' \<and> plain_segment ''hialloy.mp3''
   \<and> cache_name test_lib openai_demo ''hi'' = Some ''hialloy.mp3''
   \<and> files empty_sys ''public/audio/hialloy.mp3'' = None
   \<and> fst first_call = Resolved \<lparr>audioUrl = Some ''/audio/hialloy.mp3'', duration = 2000\<rparr>
   \<and> cache_file test_lib openai_demo ''hi'' ''public/audio'' = Some ''public/audio/hialloy.mp3''
   \<and> (\<exists>bs. files (snd first_call) = (files empty_sys)(''public/audio/hialloy.mp3'' \<mapsto> bs)
            \<and> writes (snd first_call) = writes empty_sys @ [''public/audio/hialloy.mp3''])
   \<and> (\<exists>d s2. synthesize test_lib offline openai_demo ''hi'' ''public/audio'' (snd first_call)
                = (Resolved \<lparr>audioUrl = Some ''/audio/hialloy.mp3'', duration = d\<rparr>, s2)
             \<and> invocations s2 = invocations (snd first_call))"
proof -
  have res: "fst first_call
             = Resolved \<lparr>audioUrl = Some ''/audio/hialloy.mp3'', duration = 2000\<rparr>"
    by (simp add: first_call_def demo_defs run_defs size_eval)
  then have run: "synthesize test_lib served openai_demo ''hi'' ''public/audio'' empty_sys
                  = (Resolved \<lparr>audioUrl = Some ''/audio/hialloy.mp3'', duration = 2000\<rparr>,
                     snd first_call)"
    by (simp add: first_call_def prod_eq_iff)
  have kind: "\<not> is_piper openai_demo" "hosted openai_demo" by (simp_all add: openai_demo_def)
  have dir: "clean_dir ''public/audio''" and seg: "plain_segment ''hialloy.mp3''"
    by (simp_all add: clean_dir_def plain_segment_def)
  have name: "cache_name test_lib openai_demo ''hi'' = Some ''hialloy.mp3''"
    by (simp add: openai_demo_def test_lib_def)
  have miss: "files empty_sys ''public/audio/hialloy.mp3'' = None"
    by (simp add: empty_sys_def)
  have url: "cache_url test_lib openai_demo ''hi'' = Some ''/audio/hialloy.mp3''"
    using name by (simp add: cache_url_def)
  from C8_only_the_cache_file [OF run, of offline] have
    under: "cache_file test_lib openai_demo ''hi'' ''public/audio''
            = Some ''public/audio/hialloy.mp3''"
    using dir seg name by simp
  from C8_only_the_cache_file [OF run, of offline] under kind miss res url
  have written: "\<exists>bs. files (snd first_call)
                        = (files empty_sys)(''public/audio/hialloy.mp3'' \<mapsto> bs)
            \<and> writes (snd first_call) = writes empty_sys @ [''public/audio/hialloy.mp3'']"
    by auto
  then obtain bs where "files (snd first_call) ''public/audio/hialloy.mp3'' = Some bs"
    by auto
  with C8_only_the_cache_file [OF run, of offline] under kind url
  have again: "\<exists>d s2. synthesize test_lib offline openai_demo ''hi'' ''public/audio''
                         (snd first_call)
                = (Resolved \<lparr>audioUrl = Some ''/audio/hialloy.mp3'', duration = d\<rparr>, s2)
             \<and> invocations s2 = invocations (snd first_call)"
    by auto
  from kind dir seg name miss res under written again show ?thesis by simp
qed

section \<open>C9: the duration of a resolved call\<close>




section \<open>C10: the custom-command adapter\<close>

text \<open>
  C10. For every configured command, every text and whatever the command would do, the
  custom-command adapter's \<^verbatim>\<open>synthesize\<close> rejects with a \<^verbatim>\<open>ReferenceError\<close>:
  \<^verbatim>\<open>path\<close> is not bound in tts/index.js and the call evaluates
  \<^verbatim>\<open>path.join\<close> before it runs the command. The state is untouched (the command is
  never started), so the adapter never resolves and never returns an audio URL.
\<close>

theorem C10_custom_always_rejects:
  "synthesize lib io (CustomTTS config) t dir s
     = (Rejected (ReferenceError ''path is not defined''), s)
   \<and> (truthy (get_prop (Some config) ''command'') \<longrightarrow>
        synthesize lib io (createCustomTTS config) t dir s
          = (Rejected (ReferenceError ''path is not defined''), s))
   \<and> (\<forall>r. fst (synthesize lib io (CustomTTS config) t dir s) \<noteq> Resolved r)"
  by (simp add: custom_rejects createCustomTTS_def)

text \<open>
  Witness for C10: a configured command, in a world where every command succeeds and
  writes the expected file.
\<close>

theorem C10_custom_always_rejects_witness:
  "truthy (get_prop (Some custom_demo) ''command'')
   \<and> fst (run_command (test_io (RequestError []) None (Some (''public/audio/hi.wav'', [1])))
            ''say hi'' Map.empty)
   \<and> synthesize test_lib (test_io (RequestError []) None (Some (''public/audio/hi.wav'', [1])))
        (createCustomTTS custom_demo) ''hi'' ''public/audio'' empty_sys
       = (Rejected (ReferenceError ''path is not defined''), empty_sys)"
  using C10_custom_always_rejects [where config = custom_demo and lib = test_lib
      and io = "test_io (RequestError []) None (Some (''public/audio/hi.wav'', [1]))"
      and t = "''hi''" and dir = "''public/audio''" and s = empty_sys]
  by (simp add: custom_demo_def test_io_def)

end
